theory Spec2Isabelle
  imports Complex_Main
begin

section \<open>JavaScript values\<close>

text \<open>
  The values that travel through the realtime client are JSON trees, plus
  \<open>undefined\<close> for a property that is absent. Numbers are modelled as rationals:
  \<open>NaN\<close> and the infinities are not JSON and never reach this code through
  \<open>JSON.parse\<close>.
\<close>

datatype jsval =
    JUndefined
  | JNull
  | JBool bool
  | JNum rat
  | JStr string
  | JArr "jsval list"
  | JObj "(string \<times> jsval) list"

datatype js_error = TypeError | RangeError

text \<open>The operand test of \<open>v || 0\<close>.\<close>

fun falsy :: "jsval \<Rightarrow> bool" where
  "falsy JUndefined = True"
| "falsy JNull = True"
| "falsy (JBool b) = (\<not> b)"
| "falsy (JNum n) = (n = 0)"
| "falsy (JStr s) = (s = [])"
| "falsy (JArr xs) = False"
| "falsy (JObj kvs) = False"

definition orZero :: "jsval \<Rightarrow> jsval" where
  "orZero v = (if falsy v then JNum 0 else v)"

text \<open>
  \<open>v.k\<close> for a key that no built-in prototype defines: an own property of an object,
  \<open>undefined\<close> on every other value. Reading a property of \<open>null\<close> or
  \<open>undefined\<close> raises a TypeError, which \<open>getMember\<close> reports as \<open>None\<close>.
\<close>

definition property :: "jsval \<Rightarrow> string \<Rightarrow> jsval" where
  "property v k =
     (case v of
        JObj kvs \<Rightarrow> (case map_of kvs k of Some x \<Rightarrow> x | None \<Rightarrow> JUndefined)
      | _ \<Rightarrow> JUndefined)"

definition getMember :: "jsval \<Rightarrow> string \<Rightarrow> jsval option" where
  "getMember v k = (if v = JNull \<or> v = JUndefined then None else Some (property v k))"

section \<open>ChartManager: the realtime chart's rolling series\<close>

text \<open>
  The option object of the realtime chart, reduced to what \<open>updateRealtimeChart\<close>
  reads and writes: the data of \<open>xAxis[0]\<close> and the data array of each series.
\<close>

record chart_option =
  xAxisData :: "string list"
  seriesData :: "jsval list list"

record ChartManager =
  realtimeChart :: "chart_option option"
  maxDataPoints :: nat

text \<open>One telemetry sample as \<open>updateRealtimeChart\<close> receives it in \<open>data\<close>.\<close>

record telemetry =
  timestamp :: jsval
  temperature :: jsval
  vibration :: jsval
  current :: jsval
  speed :: jsval
  pressure :: jsval

text \<open>
  \<open>if (arr.length >= this.maxDataPoints) arr.shift(); arr.push(v)\<close>.
  \<open>shift\<close> on an empty array does nothing, as \<open>tl []\<close>.
\<close>

definition shiftPush :: "nat \<Rightarrow> 'a list \<Rightarrow> 'a \<Rightarrow> 'a list" where
  "shiftPush cap xs v = (if length xs \<ge> cap then tl xs else xs) @ [v]"

text \<open>\<open>seriesData[index]\<close>: \<open>undefined\<close> beyond the end of the array.\<close>

definition atIndex :: "jsval list \<Rightarrow> nat \<Rightarrow> jsval" where
  "atIndex vs i = (if i < length vs then vs ! i else JUndefined)"

definition seriesValues :: "telemetry \<Rightarrow> jsval list" where
  "seriesValues d =
     [orZero (temperature d), orZero (vibration d), orZero (current d),
      orZero (speed d), orZero (pressure d)]"

text \<open>\<open>option.series.forEach((series, index) => ...)\<close>, from index \<open>i\<close> on.\<close>

fun forEachSeries :: "nat \<Rightarrow> jsval list \<Rightarrow> nat \<Rightarrow> jsval list list \<Rightarrow> jsval list list" where
  "forEachSeries cap vals i [] = []"
| "forEachSeries cap vals i (d # ds) =
     shiftPush cap d (atIndex vals i) # forEachSeries cap vals (Suc i) ds"

text \<open>
  \<open>updateRealtimeChart(machineId, data)\<close>. The parameter \<open>toISOString\<close> stands for
  \<open>new Date(v).toISOString()\<close>, which raises a RangeError (here \<open>None\<close>) on an
  invalid date; that happens before anything is written.
\<close>

definition updateRealtimeChart ::
  "(jsval \<Rightarrow> string option) \<Rightarrow> ChartManager \<Rightarrow> string \<Rightarrow> telemetry \<Rightarrow> js_error + ChartManager" where
  "updateRealtimeChart toISOString cm machineId d =
     (case realtimeChart cm of
        None \<Rightarrow> Inr cm
      | Some opt \<Rightarrow>
          (case toISOString (timestamp d) of
             None \<Rightarrow> Inl RangeError
           | Some timeStr \<Rightarrow>
               Inr (cm\<lparr>realtimeChart := Some (opt\<lparr>
                 xAxisData := shiftPush (maxDataPoints cm) (xAxisData opt) timeStr,
                 seriesData := forEachSeries (maxDataPoints cm) (seriesValues d) 0 (seriesData opt)\<rparr>)\<rparr>)))"

text \<open>
  A run of updates, one call per sample. Each call is an event of its own: a call that
  raises leaves the chart as it was and the next sample is still processed.
\<close>

fun feed :: "(jsval \<Rightarrow> string option) \<Rightarrow> string \<Rightarrow> telemetry list \<Rightarrow> ChartManager \<Rightarrow> ChartManager" where
  "feed toISOString machineId [] cm = cm"
| "feed toISOString machineId (d # ds) cm =
     feed toISOString machineId ds
       (case updateRealtimeChart toISOString cm machineId d of Inl e \<Rightarrow> cm | Inr cm' \<Rightarrow> cm')"

text \<open>
  The chart as \<open>initRealtimeChart\<close> sets it up (five series, all empty) in a manager
  built by the constructor (\<open>maxDataPoints = 50\<close>).
\<close>

definition initialRealtimeOption :: chart_option where
  "initialRealtimeOption = \<lparr>xAxisData = [], seriesData = [[], [], [], [], []]\<rparr>"

definition initialChartManager :: ChartManager where
  "initialChartManager = \<lparr>realtimeChart = Some initialRealtimeOption, maxDataPoints = 50\<rparr>"

text \<open>The last \<open>n\<close> elements of a list (all of it when it is shorter).\<close>

definition lastN :: "nat \<Rightarrow> 'a list \<Rightarrow> 'a list" where
  "lastN n xs = drop (length xs - n) xs"

text \<open>
  What a sample contributes to series \<open>i\<close>: the value read from it, and the value
  stored after \<open>|| 0\<close>. A sample is numeric when its five readings are numbers, and
  its timestamp is valid when the date conversion accepts it.
\<close>

definition rawValue :: "nat \<Rightarrow> telemetry \<Rightarrow> jsval" where
  "rawValue i d = atIndex [temperature d, vibration d, current d, speed d, pressure d] i"

definition sampleValue :: "nat \<Rightarrow> telemetry \<Rightarrow> jsval" where
  "sampleValue i d = atIndex (seriesValues d) i"

fun isNumber :: "jsval \<Rightarrow> bool" where
  "isNumber (JNum x) = True"
| "isNumber v = False"

definition numericSample :: "telemetry \<Rightarrow> bool" where
  "numericSample d =
     (isNumber (temperature d) \<and> isNumber (vibration d) \<and> isNumber (current d)
      \<and> isNumber (speed d) \<and> isNumber (pressure d))"

definition validTimestamp :: "(jsval \<Rightarrow> string option) \<Rightarrow> telemetry \<Rightarrow> bool" where
  "validTimestamp toISOString d = (toISOString (timestamp d) \<noteq> None)"

text \<open>Sixty numeric samples with a valid timestamp; sample \<open>n\<close> reads temperature \<open>n\<close>.\<close>

definition demoClock :: "jsval \<Rightarrow> string option" where
  "demoClock v = (case v of JStr t \<Rightarrow> Some t | _ \<Rightarrow> None)"

definition demoSample :: "nat \<Rightarrow> telemetry" where
  "demoSample n =
     \<lparr>timestamp = JStr ''2024-01-01T00:00:00.000Z'', temperature = JNum (of_nat n),
      vibration = JNum 0, current = JNum 1, speed = JNum 2, pressure = JNum 3\<rparr>"

definition demoSamples :: "telemetry list" where
  "demoSamples = map demoSample [0..<60]"

text \<open>Every series of the chart, and its time axis, holds at most \<open>maxDataPoints\<close> entries.\<close>

definition withinCapacity :: "ChartManager \<Rightarrow> bool" where
  "withinCapacity cm =
     (case realtimeChart cm of
        None \<Rightarrow> True
      | Some opt \<Rightarrow> length (xAxisData opt) \<le> maxDataPoints cm
                    \<and> list_all (\<lambda>d. length d \<le> maxDataPoints cm) (seriesData opt))"

section \<open>WebSocketManager: the realtime telemetry client\<close>

subsection \<open>State, listeners and the environment\<close>

text \<open>What a listener is called with: a parsed message, a lifecycle event, or nothing.\<close>

datatype payload =
    Msg jsval
  | OpenEvent
  | CloseEvent nat string
  | ErrorEvent
  | NoData

text \<open>
  A frame handed to \<open>ws.send\<close>: a string goes out as it is, any other value as
  \<open>JSON.stringify\<close> of it.
\<close>

datatype wire = Text string | Json jsval

text \<open>
  A listener is a callback of the dashboard. It may call back into the manager (the
  application's \<open>connected\<close> listener subscribes to every machine) and it may raise;
  its body is the list of those calls, in order, for the payload it receives.
  Listeners are compared by identity (\<open>indexOf\<close>), here the number \<open>hid\<close>.
\<close>

datatype action = CallSubscribe string | CallUnsubscribe string | CallSend wire | Raise

record handler =
  hid :: nat
  body :: "payload \<Rightarrow> action list"

datatype level = LogLevel | WarnLevel | ErrorLevel

text \<open>
  The fields of the class, followed by what the manager does to its surroundings:
  the sockets it constructed and closed, the frames it passed to \<open>ws.send\<close>, the
  delays it passed to \<open>setTimeout\<close> (in call order) with the positions of the timers
  that have run already, the listener invocations, the console
  lines, the calls of \<open>window.app\<close> hooks, the tones played and the status last
  passed to \<open>updateConnectionStatus\<close>. \<open>ws\<close> identifies the current socket by the
  order of construction.
\<close>

record WebSocketManager =
  ws :: "nat option"
  isConnected :: bool
  reconnectAttempts :: nat
  maxReconnectAttempts :: nat
  reconnectInterval :: rat
  messageHandlers :: "string \<rightharpoonup> handler list"
  subscriptions :: "string list"
  created :: nat
  closedSockets :: "nat list"
  sent :: "(nat \<times> wire) list"
  timers :: "rat list"
  fired :: "nat list"
  calls :: "(nat \<times> string \<times> payload) list"
  console :: "level list"
  appCalls :: "string list"
  sounds :: "nat list"
  connectionStatus :: string

datatype hook = Absent | Returns | Throws

text \<open>
  What the platform answers during one event: the result of \<open>JSON.parse\<close> (\<open>None\<close>
  when it raises a SyntaxError), the clock, whether \<open>ws.send\<close> raises (the current
  socket is still connecting), whether \<open>new WebSocket\<close> raises, which
  \<open>window.app\<close> hooks exist and whether they raise, and whether the audio API fails.
\<close>

record env =
  JSON_parse :: "string \<Rightarrow> jsval option"
  now :: string
  wsSendThrows :: bool
  newWebSocketThrows :: bool
  app :: "string \<Rightarrow> hook"
  audioFails :: bool

text \<open>A call that either returns or raises; the state reached is kept in both cases.\<close>

datatype 'a completion = Returned 'a | Threw 'a

definition andThen :: "'a completion \<Rightarrow> ('a \<Rightarrow> 'a completion) \<Rightarrow> 'a completion" where
  "andThen c f = (case c of Returned s \<Rightarrow> f s | Threw s \<Rightarrow> Threw s)"

definition consoleOut :: "level \<Rightarrow> WebSocketManager \<Rightarrow> WebSocketManager" where
  "consoleOut l s = s\<lparr>console := console s @ [l]\<rparr>"

definition constructor :: WebSocketManager where
  "constructor =
     \<lparr>ws = None, isConnected = False, reconnectAttempts = 0, maxReconnectAttempts = 5,
      reconnectInterval = 5000, messageHandlers = Map.empty, subscriptions = [],
      created = 0, closedSockets = [], sent = [], timers = [], fired = [], calls = [],
      console = [],
      appCalls = [], sounds = [], connectionStatus = []\<rparr>"

definition updateConnectionStatus :: "string \<Rightarrow> WebSocketManager \<Rightarrow> WebSocketManager" where
  "updateConnectionStatus status s = s\<lparr>connectionStatus := status\<rparr>"

subsection \<open>Sending and the subscription set\<close>

definition send :: "env \<Rightarrow> wire \<Rightarrow> WebSocketManager \<Rightarrow> bool \<times> WebSocketManager" where
  "send e message s =
     (case ws s of
        Some w \<Rightarrow>
          if isConnected s then
            (if wsSendThrows e then (False, consoleOut ErrorLevel s)
             else (True, consoleOut LogLevel (s\<lparr>sent := sent s @ [(w, message)]\<rparr>)))
          else (False, consoleOut WarnLevel s)
      | None \<Rightarrow> (False, consoleOut WarnLevel s))"

definition subscribeMessage :: "string \<Rightarrow> jsval" where
  "subscribeMessage machineId = JObj [(''type'', JStr ''subscribe''), (''machine_id'', JStr machineId)]"

definition unsubscribeMessage :: "string \<Rightarrow> jsval" where
  "unsubscribeMessage machineId = JObj [(''type'', JStr ''unsubscribe''), (''machine_id'', JStr machineId)]"

definition pongMessage :: "string \<Rightarrow> jsval" where
  "pongMessage t = JObj [(''type'', JStr ''pong''), (''timestamp'', JStr t)]"

text \<open>\<open>Set.add\<close> and \<open>Set.delete\<close> on a set kept in insertion order.\<close>

definition setAdd :: "string \<Rightarrow> string list \<Rightarrow> string list" where
  "setAdd x xs = (if x \<in> set xs then xs else xs @ [x])"

definition setDelete :: "string \<Rightarrow> string list \<Rightarrow> string list" where
  "setDelete x xs = removeAll x xs"

definition subscribe :: "env \<Rightarrow> string \<Rightarrow> WebSocketManager \<Rightarrow> bool \<times> WebSocketManager" where
  "subscribe e machineId s =
     (case send e (Json (subscribeMessage machineId)) s of
        (True, s1) \<Rightarrow> (True, consoleOut LogLevel (s1\<lparr>subscriptions := setAdd machineId (subscriptions s1)\<rparr>))
      | (False, s1) \<Rightarrow> (False, s1))"

definition unsubscribe :: "env \<Rightarrow> string \<Rightarrow> WebSocketManager \<Rightarrow> bool \<times> WebSocketManager" where
  "unsubscribe e machineId s =
     (case send e (Json (unsubscribeMessage machineId)) s of
        (True, s1) \<Rightarrow> (True, consoleOut LogLevel (s1\<lparr>subscriptions := setDelete machineId (subscriptions s1)\<rparr>))
      | (False, s1) \<Rightarrow> (False, s1))"

text \<open>
  \<open>for (const machineId of this.subscriptions) this.subscribe(machineId)\<close>. The only
  element \<open>subscribe\<close> can add is the one being visited, which is in the set already,
  so the loop visits the elements the set had when it started.
\<close>

definition resubscribe :: "env \<Rightarrow> WebSocketManager \<Rightarrow> WebSocketManager" where
  "resubscribe e s = fold (\<lambda>machineId st. snd (subscribe e machineId st)) (subscriptions s) s"

subsection \<open>Listeners\<close>

definition on :: "string \<Rightarrow> handler \<Rightarrow> WebSocketManager \<Rightarrow> WebSocketManager" where
  "on eventType h s =
     s\<lparr>messageHandlers := (messageHandlers s)
          (eventType \<mapsto> (case messageHandlers s eventType of None \<Rightarrow> [] | Some hs \<Rightarrow> hs) @ [h])\<rparr>"

fun spliceFirst :: "nat \<Rightarrow> handler list \<Rightarrow> handler list" where
  "spliceFirst i [] = []"
| "spliceFirst i (h # hs) = (if hid h = i then hs else h # spliceFirst i hs)"

definition off :: "string \<Rightarrow> handler \<Rightarrow> WebSocketManager \<Rightarrow> WebSocketManager" where
  "off eventType h s =
     (case messageHandlers s eventType of
        None \<Rightarrow> s
      | Some hs \<Rightarrow> s\<lparr>messageHandlers := (messageHandlers s)(eventType \<mapsto> spliceFirst (hid h) hs)\<rparr>)"

fun runActions :: "env \<Rightarrow> action list \<Rightarrow> WebSocketManager \<Rightarrow> WebSocketManager completion" where
  "runActions e [] s = Returned s"
| "runActions e (Raise # as) s = Threw s"
| "runActions e (CallSubscribe t # as) s = runActions e as (snd (subscribe e t s))"
| "runActions e (CallUnsubscribe t # as) s = runActions e as (snd (unsubscribe e t s))"
| "runActions e (CallSend m # as) s = runActions e as (snd (send e m s))"

text \<open>One turn of the \<open>forEach\<close> in \<open>emit\<close>: the call in its \<open>try\<close>, the report in its \<open>catch\<close>.\<close>

definition invoke :: "env \<Rightarrow> string \<Rightarrow> payload \<Rightarrow> handler \<Rightarrow> WebSocketManager \<Rightarrow> WebSocketManager" where
  "invoke e eventType d h s =
     (case runActions e (body h d) (s\<lparr>calls := calls s @ [(hid h, eventType, d)]\<rparr>) of
        Returned s' \<Rightarrow> s'
      | Threw s' \<Rightarrow> consoleOut ErrorLevel s')"

definition listeners :: "WebSocketManager \<Rightarrow> string \<Rightarrow> handler list" where
  "listeners s eventType = (case messageHandlers s eventType of None \<Rightarrow> [] | Some hs \<Rightarrow> hs)"

definition emit :: "env \<Rightarrow> string \<Rightarrow> payload \<Rightarrow> WebSocketManager \<Rightarrow> WebSocketManager" where
  "emit e eventType d s =
     (case messageHandlers s eventType of
        None \<Rightarrow> s
      | Some hs \<Rightarrow> fold (invoke e eventType d) hs s)"

text \<open>
  \<open>emit\<close> with a key read from a message. Listeners are registered under strings, so
  a key that is not a string finds none.
\<close>

definition emitKey :: "env \<Rightarrow> jsval \<Rightarrow> payload \<Rightarrow> WebSocketManager \<Rightarrow> WebSocketManager" where
  "emitKey e k d s = (case k of JStr eventType \<Rightarrow> emit e eventType d s | _ \<Rightarrow> s)"

subsection \<open>Reconnection and the connection lifecycle\<close>

text \<open>
  \<open>scheduleReconnect\<close>. \<open>setTimeout\<close> adds a pending timer with the current
  interval; the interval then grows by the factor 1.5 up to 30000 ms. The products
  of the default configuration (5000, 7500, 11250, 16875, 25312.5 and the cap) are
  exact in double precision, so the rational arithmetic agrees with the program there.
\<close>

definition scheduleReconnect :: "env \<Rightarrow> WebSocketManager \<Rightarrow> WebSocketManager" where
  "scheduleReconnect e s =
     (if reconnectAttempts s < maxReconnectAttempts s then
        (consoleOut LogLevel (s\<lparr>reconnectAttempts := reconnectAttempts s + 1\<rparr>))
          \<lparr>timers := timers s @ [reconnectInterval s],
           reconnectInterval := min (reconnectInterval s * (3 / 2)) 30000\<rparr>
      else emit e ''max_reconnect_attempts_reached'' NoData (consoleOut ErrorLevel s))"

definition connect :: "env \<Rightarrow> WebSocketManager \<Rightarrow> WebSocketManager" where
  "connect e s =
     (let s1 = updateConnectionStatus ''connecting'' (consoleOut LogLevel s) in
      if newWebSocketThrows e then
        scheduleReconnect e (updateConnectionStatus ''disconnected'' (consoleOut ErrorLevel s1))
      else s1\<lparr>ws := Some (created s1), created := Suc (created s1)\<rparr>)"

definition disconnect :: "WebSocketManager \<Rightarrow> WebSocketManager" where
  "disconnect s =
     updateConnectionStatus ''disconnected''
       ((case ws s of
           Some w \<Rightarrow> s\<lparr>closedSockets := closedSockets s @ [w], ws := None\<rparr>
         | None \<Rightarrow> s)\<lparr>isConnected := False\<rparr>)"

definition onOpen :: "env \<Rightarrow> WebSocketManager \<Rightarrow> WebSocketManager" where
  "onOpen e s =
     emit e ''connected'' OpenEvent
       (resubscribe e
          (updateConnectionStatus ''connected''
             ((consoleOut LogLevel s)\<lparr>isConnected := True, reconnectAttempts := 0\<rparr>)))"

definition onClose :: "env \<Rightarrow> nat \<Rightarrow> string \<Rightarrow> WebSocketManager \<Rightarrow> WebSocketManager" where
  "onClose e code reason s =
     (let s1 = emit e ''disconnected'' (CloseEvent code reason)
                 (updateConnectionStatus ''disconnected''
                    ((consoleOut LogLevel s)\<lparr>isConnected := False\<rparr>)) in
      if code \<noteq> 1000 then scheduleReconnect e s1 else s1)"

definition onError :: "env \<Rightarrow> WebSocketManager \<Rightarrow> WebSocketManager" where
  "onError e s = emit e ''error'' ErrorEvent (consoleOut ErrorLevel s)"

text \<open>
  The timers that are still pending, and the platform running the callback of the
  \<open>i\<close>-th timer, \<open>() => this.connect()\<close>, once.
\<close>

definition pendingTimers :: "WebSocketManager \<Rightarrow> nat list" where
  "pendingTimers s = filter (\<lambda>i. i \<notin> set (fired s)) [0..<length (timers s)]"

definition timerFires :: "env \<Rightarrow> nat \<Rightarrow> WebSocketManager \<Rightarrow> WebSocketManager" where
  "timerFires e i s =
     (if i \<in> set (pendingTimers s) then connect e (s\<lparr>fired := fired s @ [i]\<rparr>) else s)"

text \<open>
  A connection lost unexpectedly, followed by the retry it scheduled: \<open>onClose\<close>
  and then the callback of the timer set last (nothing if none was set).
\<close>

definition lossAndRetry :: "env \<Rightarrow> nat \<Rightarrow> WebSocketManager \<Rightarrow> WebSocketManager" where
  "lossAndRetry e code s =
     (let s1 = onClose e code [] s in timerFires e (length (timers s1) - 1) s1)"

subsection \<open>Message dispatch\<close>

text \<open>\<open>if (window.app && window.app.f) window.app.f(...)\<close>\<close>

definition callApp :: "env \<Rightarrow> string \<Rightarrow> WebSocketManager \<Rightarrow> WebSocketManager completion" where
  "callApp e f s =
     (case app e f of
        Absent \<Rightarrow> Returned s
      | Returns \<Rightarrow> Returned (s\<lparr>appCalls := appCalls s @ [f]\<rparr>)
      | Throws \<Rightarrow> Threw (s\<lparr>appCalls := appCalls s @ [f]\<rparr>))"

definition toLowerCase :: "string \<Rightarrow> string" where
  "toLowerCase =
     map (\<lambda>c. if 65 \<le> (of_char c :: nat) \<and> (of_char c :: nat) \<le> 90
              then char_of ((of_char c :: nat) + 32) else c)"

definition alarmFrequency :: "string \<Rightarrow> nat" where
  "alarmFrequency l =
     (if l = ''critical'' then 880
      else if l = ''error'' then 660
      else if l = ''warning'' then 440
      else if l = ''info'' then 330
      else 440)"

text \<open>
  \<open>playAlarmSound\<close>: its whole body is in a \<open>try\<close>; a level that is not a string
  (\<open>toLowerCase\<close> raises) or an audio API that fails ends in the \<open>catch\<close>.
\<close>

definition playAlarmSound :: "env \<Rightarrow> jsval \<Rightarrow> WebSocketManager \<Rightarrow> WebSocketManager" where
  "playAlarmSound e lv s =
     (case lv of
        JStr l \<Rightarrow>
          if audioFails e then consoleOut WarnLevel s
          else s\<lparr>sounds := sounds s @ [alarmFrequency (toLowerCase l)]\<rparr>
      | _ \<Rightarrow> consoleOut WarnLevel s)"

definition handleWelcomeMessage :: "env \<Rightarrow> jsval \<Rightarrow> WebSocketManager \<Rightarrow> WebSocketManager completion" where
  "handleWelcomeMessage e message s =
     Returned (emit e ''welcome'' (Msg message) (consoleOut LogLevel s))"

definition handleMachineDataMessage :: "env \<Rightarrow> jsval \<Rightarrow> WebSocketManager \<Rightarrow> WebSocketManager completion" where
  "handleMachineDataMessage e message s =
     andThen (callApp e ''updateMachineData'' s)
       (\<lambda>s1. Returned (emit e ''machine_data'' (Msg message) s1))"

text \<open>\<open>alarm.level\<close> raises a TypeError when the message has no \<open>alarm\<close>.\<close>

definition handleAlarmMessage :: "env \<Rightarrow> jsval \<Rightarrow> WebSocketManager \<Rightarrow> WebSocketManager completion" where
  "handleAlarmMessage e message s =
     andThen (callApp e ''showAlarmNotification'' s)
       (\<lambda>s1. case getMember (property message ''alarm'') ''level'' of
                None \<Rightarrow> Threw s1
              | Some lv \<Rightarrow> Returned (emit e ''alarm'' (Msg message) (playAlarmSound e lv s1)))"

definition handleStatusChangeMessage :: "env \<Rightarrow> jsval \<Rightarrow> WebSocketManager \<Rightarrow> WebSocketManager completion" where
  "handleStatusChangeMessage e message s =
     andThen (callApp e ''updateMachineStatus'' (consoleOut LogLevel s))
       (\<lambda>s1. Returned (emit e ''status_change'' (Msg message) s1))"

definition handleControlResponseMessage :: "env \<Rightarrow> jsval \<Rightarrow> WebSocketManager \<Rightarrow> WebSocketManager completion" where
  "handleControlResponseMessage e message s =
     Returned (emit e ''control_response'' (Msg message) (consoleOut LogLevel s))"

definition handleSystemNotificationMessage :: "env \<Rightarrow> jsval \<Rightarrow> WebSocketManager \<Rightarrow> WebSocketManager completion" where
  "handleSystemNotificationMessage e message s =
     andThen (callApp e ''showSystemNotification'' s)
       (\<lambda>s1. Returned (emit e ''system_notification'' (Msg message) s1))"

definition handleMaintenanceAlertMessage :: "env \<Rightarrow> jsval \<Rightarrow> WebSocketManager \<Rightarrow> WebSocketManager completion" where
  "handleMaintenanceAlertMessage e message s =
     Returned (emit e ''maintenance_alert'' (Msg message) (consoleOut LogLevel s))"

definition handlePerformanceReportMessage :: "env \<Rightarrow> jsval \<Rightarrow> WebSocketManager \<Rightarrow> WebSocketManager completion" where
  "handlePerformanceReportMessage e message s =
     Returned (emit e ''performance_report'' (Msg message) (consoleOut LogLevel s))"

definition handleSubscriptionConfirmedMessage :: "env \<Rightarrow> jsval \<Rightarrow> WebSocketManager \<Rightarrow> WebSocketManager completion" where
  "handleSubscriptionConfirmedMessage e message s =
     Returned (emit e ''subscription_confirmed'' (Msg message) (consoleOut LogLevel s))"

definition handleUnsubscriptionConfirmedMessage :: "env \<Rightarrow> jsval \<Rightarrow> WebSocketManager \<Rightarrow> WebSocketManager completion" where
  "handleUnsubscriptionConfirmedMessage e message s =
     Returned (emit e ''unsubscription_confirmed'' (Msg message) (consoleOut LogLevel s))"

definition handlePingMessage :: "env \<Rightarrow> jsval \<Rightarrow> WebSocketManager \<Rightarrow> WebSocketManager completion" where
  "handlePingMessage e message s = Returned (snd (send e (Json (pongMessage (now e))) s))"

definition handleErrorMessage :: "env \<Rightarrow> jsval \<Rightarrow> WebSocketManager \<Rightarrow> WebSocketManager completion" where
  "handleErrorMessage e message s =
     andThen (callApp e ''showErrorNotification'' (consoleOut ErrorLevel s))
       (\<lambda>s1. Returned (emit e ''server_error'' (Msg message) s1))"

text \<open>The \<open>switch\<close> of \<open>handleMessage\<close>; \<open>case\<close> labels compare with \<open>===\<close>.\<close>

definition handleByType :: "env \<Rightarrow> jsval \<Rightarrow> jsval \<Rightarrow> WebSocketManager \<Rightarrow> WebSocketManager completion" where
  "handleByType e messageType message s =
     (if messageType = JStr ''welcome'' then handleWelcomeMessage e message s
      else if messageType = JStr ''machine_data'' then handleMachineDataMessage e message s
      else if messageType = JStr ''alarm'' then handleAlarmMessage e message s
      else if messageType = JStr ''status_change'' then handleStatusChangeMessage e message s
      else if messageType = JStr ''control_response'' then handleControlResponseMessage e message s
      else if messageType = JStr ''system_notification'' then handleSystemNotificationMessage e message s
      else if messageType = JStr ''maintenance_alert'' then handleMaintenanceAlertMessage e message s
      else if messageType = JStr ''performance_report'' then handlePerformanceReportMessage e message s
      else if messageType = JStr ''subscription_confirmed'' then handleSubscriptionConfirmedMessage e message s
      else if messageType = JStr ''unsubscription_confirmed'' then handleUnsubscriptionConfirmedMessage e message s
      else if messageType = JStr ''ping'' then handlePingMessage e message s
      else if messageType = JStr ''error'' then handleErrorMessage e message s
      else Returned (consoleOut WarnLevel s))"

definition handleMessage :: "env \<Rightarrow> jsval \<Rightarrow> WebSocketManager \<Rightarrow> WebSocketManager completion" where
  "handleMessage e message s =
     (case getMember message ''type'' of
        None \<Rightarrow> Threw s
      | Some messageType \<Rightarrow>
          andThen (handleByType e messageType message s)
            (\<lambda>s1. Returned (emitKey e messageType (Msg message)
                              (emit e ''message'' (Msg message) s1))))"

text \<open>\<open>onMessage(event)\<close>, with \<open>event.data\<close> the raw frame.\<close>

definition onMessage :: "env \<Rightarrow> string \<Rightarrow> WebSocketManager \<Rightarrow> WebSocketManager" where
  "onMessage e frame s =
     (case JSON_parse e frame of
        None \<Rightarrow> consoleOut ErrorLevel s
      | Some message \<Rightarrow>
          (case handleMessage e message (consoleOut LogLevel s) of
             Returned s' \<Rightarrow> s'
           | Threw s' \<Rightarrow> consoleOut ErrorLevel s'))"

subsection \<open>Auxiliary notions\<close>

text \<open>
  The condition under which \<open>send\<close> puts a frame on the wire: the manager believes
  it is connected, it holds a socket, and the socket accepts the frame.
\<close>

definition canSend :: "env \<Rightarrow> WebSocketManager \<Rightarrow> bool" where
  "canSend e s = (isConnected s \<and> ws s \<noteq> None \<and> \<not> wsSendThrows e)"

text \<open>The state a call ends in, whether it returned or raised.\<close>

fun stateOf :: "'a completion \<Rightarrow> 'a" where
  "stateOf (Returned s) = s"
| "stateOf (Threw s) = s"

text \<open>The state in which \<open>onOpen\<close> starts to resubscribe.\<close>

definition opened :: "WebSocketManager \<Rightarrow> WebSocketManager" where
  "opened s = updateConnectionStatus ''connected''
                ((consoleOut LogLevel s)\<lparr>isConnected := True, reconnectAttempts := 0\<rparr>)"

text \<open>The message types that have a \<open>case\<close> of their own in \<open>handleMessage\<close>.\<close>

definition handledTypes :: "string list" where
  "handledTypes =
     [''welcome'', ''machine_data'', ''alarm'', ''status_change'', ''control_response'',
      ''system_notification'', ''maintenance_alert'', ''performance_report'',
      ''subscription_confirmed'', ''unsubscription_confirmed'', ''ping'', ''error'']"

subsection \<open>Concrete scenarios\<close>

text \<open>
  An environment in which nothing fails, two listeners that do nothing, one that
  raises, and the states of a client that registered listeners, connected, subscribed
  to a machine and then lost its connection.
\<close>

definition pingFrame :: string where
  \<open>pingFrame = ''{"type":"ping"}''\<close>

definition welcomeFrame :: string where
  \<open>welcomeFrame = ''{"type":"welcome"}''\<close>

definition pingMsg :: jsval where
  "pingMsg = JObj [(''type'', JStr ''ping'')]"

definition welcomeMsg :: jsval where
  "welcomeMsg = JObj [(''type'', JStr ''welcome'')]"

definition demoParse :: "string \<Rightarrow> jsval option" where
  "demoParse frame =
     (if frame = pingFrame then Some pingMsg
      else if frame = welcomeFrame then Some welcomeMsg
      else None)"

definition demoEnv :: env where
  "demoEnv =
     \<lparr>JSON_parse = demoParse, now = ''2024-01-01T00:00:00.000Z'', wsSendThrows = False,
      newWebSocketThrows = False, app = (\<lambda>f. Absent), audioFails = False\<rparr>"

definition quietListener :: "nat \<Rightarrow> handler" where
  "quietListener i = \<lparr>hid = i, body = (\<lambda>d. [])\<rparr>"

definition raisingListener :: "nat \<Rightarrow> handler" where
  "raisingListener i = \<lparr>hid = i, body = (\<lambda>d. [Raise])\<rparr>"

definition demoRegistered :: WebSocketManager where
  "demoRegistered =
     on ''max_reconnect_attempts_reached'' (quietListener 4)
       (on ''welcome'' (quietListener 3)
          (on ''ping'' (quietListener 2)
             (on ''message'' (quietListener 1) constructor)))"

definition demoConnected :: WebSocketManager where
  "demoConnected = onOpen demoEnv (connect demoEnv demoRegistered)"

definition demoSubscribed :: WebSocketManager where
  "demoSubscribed = snd (subscribe demoEnv ''M1'' demoConnected)"

definition demoLost :: WebSocketManager where
  "demoLost = onClose demoEnv 1006 [] demoSubscribed"

text \<open>The retry timer of the lost client runs, and the new connection opens.\<close>

definition demoReconnected :: WebSocketManager where
  "demoReconnected = onOpen demoEnv (timerFires demoEnv 0 demoLost)"

section \<open>Properties of the rolling series\<close>

lemma shiftPush_lastN: "length xs \<le> cap \<Longrightarrow> 0 < cap \<Longrightarrow> shiftPush cap xs v = lastN cap (xs @ [v])"
  by (cases xs) (auto simp: shiftPush_def lastN_def)

lemma length_lastN: "length (lastN n xs) = min n (length xs)"
  by (auto simp: lastN_def)

lemma lastN_lastN_append: "lastN n (lastN n xs @ ys) = lastN n (xs @ ys)"
proof (cases "length xs \<le> n")
  case True
  then show ?thesis by (simp add: lastN_def)
next
  case False
  then have "length xs + length ys - (length xs - n + n) + (length xs - n) = length xs + length ys - n"
    by arith
  with False show ?thesis by (simp add: lastN_def)
qed

lemma length_forEachSeries: "length (forEachSeries cap vals i ss) = length ss"
  by (induction ss arbitrary: i) auto

lemma nth_forEachSeries:
  "j < length ss \<Longrightarrow> forEachSeries cap vals i ss ! j = shiftPush cap (ss ! j) (atIndex vals (i + j))"
  by (induction ss arbitrary: i j) (auto simp: nth_Cons split: nat.splits)

lemma update_ok:
  assumes "realtimeChart cm = Some opt" and "toISOString (timestamp d) = Some t"
  shows "updateRealtimeChart toISOString cm machineId d =
     Inr (cm\<lparr>realtimeChart := Some (opt\<lparr>
                 xAxisData := shiftPush (maxDataPoints cm) (xAxisData opt) t,
                 seriesData := forEachSeries (maxDataPoints cm) (seriesValues d) 0 (seriesData opt)\<rparr>)\<rparr>)"
  using assms by (simp add: updateRealtimeChart_def)

lemma length_shiftPush_le: "length xs \<le> cap \<Longrightarrow> 0 < cap \<Longrightarrow> length (shiftPush cap xs v) \<le> cap"
  by (cases xs) (auto simp: shiftPush_def)

lemma forEachSeries_within:
  "list_all (\<lambda>d. length d \<le> cap) ss \<Longrightarrow> 0 < cap \<Longrightarrow>
   list_all (\<lambda>d. length d \<le> cap) (forEachSeries cap vals i ss)"
  by (induction ss arbitrary: i) (auto simp: length_shiftPush_le)

lemma update_withinCapacity:
  assumes "withinCapacity cm" and "0 < maxDataPoints cm"
  shows "withinCapacity (case updateRealtimeChart toISOString cm machineId d of Inl e \<Rightarrow> cm | Inr cm' \<Rightarrow> cm')"
  using assms
  by (auto simp: updateRealtimeChart_def withinCapacity_def length_shiftPush_le forEachSeries_within
           split: option.splits)

lemma update_maxDataPoints:
  "maxDataPoints (case updateRealtimeChart toISOString cm machineId d of Inl e \<Rightarrow> cm | Inr cm' \<Rightarrow> cm') = maxDataPoints cm"
  by (auto simp: updateRealtimeChart_def split: option.splits)

lemma feed_maxDataPoints: "maxDataPoints (feed toISOString machineId ds cm) = maxDataPoints cm"
  by (induction ds arbitrary: cm) (simp_all add: update_maxDataPoints)

lemma feed_withinCapacity:
  "withinCapacity cm \<Longrightarrow> 0 < maxDataPoints cm \<Longrightarrow> withinCapacity (feed toISOString machineId ds cm)"
proof (induction ds arbitrary: cm)
  case Nil
  then show ?case by simp
next
  case (Cons d ds)
  show ?case
    unfolding feed.simps
    by (rule Cons.IH) (simp_all add: update_withinCapacity update_maxDataPoints Cons.prems)
qed

lemma feed_series:
  assumes "realtimeChart cm = Some opt" and "0 < maxDataPoints cm" and "withinCapacity cm"
    and "\<forall>d\<in>set ds. toISOString (timestamp d) \<noteq> None"
  shows "\<exists>opt'. realtimeChart (feed toISOString machineId ds cm) = Some opt'
           \<and> length (seriesData opt') = length (seriesData opt)
           \<and> (\<forall>i<length (seriesData opt).
                 seriesData opt' ! i = lastN (maxDataPoints cm) (seriesData opt ! i @ map (sampleValue i) ds))
           \<and> xAxisData opt' =
               lastN (maxDataPoints cm) (xAxisData opt @ map (\<lambda>d. the (toISOString (timestamp d))) ds)"
  using assms
proof (induction ds arbitrary: cm opt)
  case Nil
  then show ?case
    by (auto simp: lastN_def withinCapacity_def list_all_length)
next
  case (Cons d ds)
  from Cons.prems(4) obtain t where t: "toISOString (timestamp d) = Some t" by auto
  define opt1 where "opt1 = opt\<lparr>
                 xAxisData := shiftPush (maxDataPoints cm) (xAxisData opt) t,
                 seriesData := forEachSeries (maxDataPoints cm) (seriesValues d) 0 (seriesData opt)\<rparr>"
  define cm1 where "cm1 = cm\<lparr>realtimeChart := Some opt1\<rparr>"
  have step: "updateRealtimeChart toISOString cm machineId d = Inr cm1"
    using Cons.prems(1) t by (simp add: updateRealtimeChart_def cm1_def opt1_def)
  have w1: "withinCapacity cm1"
    using update_withinCapacity[OF Cons.prems(3) Cons.prems(2), of toISOString machineId d] step by simp
  have c1: "maxDataPoints cm1 = maxDataPoints cm" by (simp add: cm1_def)
  have r1: "realtimeChart cm1 = Some opt1" by (simp add: cm1_def)
  have lens: "length (xAxisData opt) \<le> maxDataPoints cm"
    "\<And>i. i < length (seriesData opt) \<Longrightarrow> length (seriesData opt ! i) \<le> maxDataPoints cm"
    using Cons.prems(1,3) by (auto simp: withinCapacity_def list_all_length)
  from Cons.IH[OF r1 _ w1] Cons.prems c1
  obtain opt' where o: "realtimeChart (feed toISOString machineId ds cm1) = Some opt'"
    "length (seriesData opt') = length (seriesData opt1)"
    "\<forall>i<length (seriesData opt1).
        seriesData opt' ! i = lastN (maxDataPoints cm) (seriesData opt1 ! i @ map (sampleValue i) ds)"
    "xAxisData opt' = lastN (maxDataPoints cm) (xAxisData opt1 @ map (\<lambda>d. the (toISOString (timestamp d))) ds)"
    by auto
  have l1: "length (seriesData opt1) = length (seriesData opt)"
    by (simp add: opt1_def length_forEachSeries)
  have s1: "seriesData opt1 ! i = lastN (maxDataPoints cm) (seriesData opt ! i @ [sampleValue i d])"
    if "i < length (seriesData opt)" for i
    using that lens(2)[OF that] Cons.prems(2)
    by (simp add: opt1_def nth_forEachSeries shiftPush_lastN sampleValue_def)
  have x1: "xAxisData opt1 = lastN (maxDataPoints cm) (xAxisData opt @ [t])"
    using lens(1) Cons.prems(2) by (simp add: opt1_def shiftPush_lastN)
  show ?case
    using o l1 s1 x1 step t by (simp add: lastN_lastN_append)
qed

lemma orZero_number: "isNumber v \<Longrightarrow> orZero v = v"
  by (cases v) (auto simp: orZero_def)

lemma sampleValue_numeric: "numericSample d \<Longrightarrow> sampleValue i d = rawValue i d"
  by (auto simp: sampleValue_def rawValue_def seriesValues_def atIndex_def numericSample_def
        orZero_number nth_Cons split: nat.splits)

lemma lastN_append_long: "n \<le> length ys \<Longrightarrow> lastN n (xs @ ys) = drop (length ys - n) ys"
  by (simp add: lastN_def)

text \<open>
  C8: in a realtime chart of capacity 50 whose series are within capacity, sixty
  updates with numeric samples and valid timestamps leave every series with exactly
  50 entries: the temperature, vibration, current, speed and pressure readings of
  samples 11 to 60, in arrival order, in the first to fifth series (and the timestamps
  of those samples on the time axis); after every prefix of the run no series is
  longer than 50.
\<close>

theorem realtime_series_keeps_last_50_of_60:
  assumes "realtimeChart cm = Some opt" and "maxDataPoints cm = 50" and "withinCapacity cm"
    and "length ds = 60"
    and "list_all (validTimestamp toISOString) ds"
    and "list_all numericSample ds"
  shows "\<exists>opt'. realtimeChart (feed toISOString machineId ds cm) = Some opt'
           \<and> length (seriesData opt') = length (seriesData opt)
           \<and> (\<forall>i<length (seriesData opt). length (seriesData opt' ! i) = 50)
           \<and> (0 < length (seriesData opt) \<longrightarrow> seriesData opt' ! 0 = map temperature (drop 10 ds))
           \<and> (1 < length (seriesData opt) \<longrightarrow> seriesData opt' ! 1 = map vibration (drop 10 ds))
           \<and> (2 < length (seriesData opt) \<longrightarrow> seriesData opt' ! 2 = map current (drop 10 ds))
           \<and> (3 < length (seriesData opt) \<longrightarrow> seriesData opt' ! 3 = map speed (drop 10 ds))
           \<and> (4 < length (seriesData opt) \<longrightarrow> seriesData opt' ! 4 = map pressure (drop 10 ds))
           \<and> xAxisData opt' = map (\<lambda>d. the (toISOString (timestamp d))) (drop 10 ds)
           \<and> (\<forall>n\<le>60. withinCapacity (feed toISOString machineId (take n ds) cm))"
proof -
  have v: "\<forall>d\<in>set ds. toISOString (timestamp d) \<noteq> None"
    using assms(5) by (simp add: list_all_iff validTimestamp_def)
  have pos: "0 < maxDataPoints cm" using assms(2) by simp
  from feed_series[OF assms(1) pos assms(3) v, of machineId] assms(2)
  obtain opt' where o: "realtimeChart (feed toISOString machineId ds cm) = Some opt'"
    "length (seriesData opt') = length (seriesData opt)"
    "\<forall>i<length (seriesData opt).
        seriesData opt' ! i = lastN 50 (seriesData opt ! i @ map (sampleValue i) ds)"
    "xAxisData opt' = lastN 50 (xAxisData opt @ map (\<lambda>d. the (toISOString (timestamp d))) ds)"
    by auto
  have num: "map (sampleValue i) ds = map (rawValue i) ds" for i
    using assms(6) by (simp add: list_all_iff sampleValue_numeric)
  have ser: "seriesData opt' ! i = map (rawValue i) (drop 10 ds)" if "i < length (seriesData opt)" for i
    using o(3) that assms(4) by (simp add: num lastN_append_long drop_map)
  have len: "\<forall>i<length (seriesData opt). length (seriesData opt' ! i) = 50"
    using ser assms(4) by simp
  have s0: "0 < length (seriesData opt) \<longrightarrow> seriesData opt' ! 0 = map temperature (drop 10 ds)"
    using ser[of 0] by (simp add: rawValue_def atIndex_def)
  have s1: "1 < length (seriesData opt) \<longrightarrow> seriesData opt' ! 1 = map vibration (drop 10 ds)"
    using ser[of 1] by (simp add: rawValue_def atIndex_def)
  have s2: "2 < length (seriesData opt) \<longrightarrow> seriesData opt' ! 2 = map current (drop 10 ds)"
    using ser[of 2] by (simp add: rawValue_def atIndex_def)
  have s3: "3 < length (seriesData opt) \<longrightarrow> seriesData opt' ! 3 = map speed (drop 10 ds)"
    using ser[of 3] by (simp add: rawValue_def atIndex_def)
  have s4: "4 < length (seriesData opt) \<longrightarrow> seriesData opt' ! 4 = map pressure (drop 10 ds)"
    using ser[of 4] by (simp add: rawValue_def atIndex_def)
  have ax: "xAxisData opt' = map (\<lambda>d. the (toISOString (timestamp d))) (drop 10 ds)"
    using o(4) assms(4) by (simp add: lastN_append_long drop_map)
  have inv: "\<forall>n\<le>60. withinCapacity (feed toISOString machineId (take n ds) cm)"
    using feed_withinCapacity[OF assms(3) pos] by simp
  show ?thesis using o(1,2) len s0 s1 s2 s3 s4 ax inv by blast
qed

lemma demo_valid: "list_all (validTimestamp demoClock) demoSamples"
  by (simp add: demoSamples_def list_all_iff validTimestamp_def demoClock_def demoSample_def)

lemma demo_numeric: "list_all numericSample demoSamples"
  by (simp add: demoSamples_def list_all_iff numericSample_def demoSample_def)

lemma demo_last_50: "drop 10 demoSamples = map demoSample [10..<60]"
  by (simp add: demoSamples_def drop_map)

lemma demo_constant_reading:
  assumes "\<And>n. f (demoSample n) = c"
  shows "map f (drop 10 demoSamples) = replicate 50 c"
proof -
  have g: "map f (map demoSample xs) = replicate (length xs) c" for xs
    by (induction xs) (simp_all add: assms)
  have "length [10..<60::nat] = 50" by simp
  with g[of "[10..<60]"] show ?thesis by (simp only: demo_last_50)
qed

text \<open>
  The statement of C8 at the chart set up by \<open>initRealtimeChart\<close> and the sixty
  samples \<open>demoSamples\<close>: the temperature series runs from 10 to 59, the other four
  series hold fifty times the constant reading, and the chart is within capacity after
  37 samples.
\<close>

theorem realtime_series_keeps_last_50_of_60_witness:
  "realtimeChart initialChartManager = Some initialRealtimeOption
   \<and> maxDataPoints initialChartManager = 50
   \<and> withinCapacity initialChartManager
   \<and> length demoSamples = 60
   \<and> list_all (validTimestamp demoClock) demoSamples
   \<and> list_all numericSample demoSamples
   \<and> length (seriesData initialRealtimeOption) = 5
   \<and> length (seriesData (the (realtimeChart (feed demoClock ''M1'' demoSamples initialChartManager)))) = 5
   \<and> seriesData (the (realtimeChart (feed demoClock ''M1'' demoSamples initialChartManager))) ! 0
       = map (\<lambda>n. JNum (of_nat n)) [10..<60]
   \<and> seriesData (the (realtimeChart (feed demoClock ''M1'' demoSamples initialChartManager))) ! 0 ! 0
       = JNum 10
   \<and> seriesData (the (realtimeChart (feed demoClock ''M1'' demoSamples initialChartManager))) ! 0 ! 49
       = JNum 59
   \<and> seriesData (the (realtimeChart (feed demoClock ''M1'' demoSamples initialChartManager))) ! 1
       = replicate 50 (JNum 0)
   \<and> seriesData (the (realtimeChart (feed demoClock ''M1'' demoSamples initialChartManager))) ! 2
       = replicate 50 (JNum 1)
   \<and> seriesData (the (realtimeChart (feed demoClock ''M1'' demoSamples initialChartManager))) ! 3
       = replicate 50 (JNum 2)
   \<and> seriesData (the (realtimeChart (feed demoClock ''M1'' demoSamples initialChartManager))) ! 4
       = replicate 50 (JNum 3)
   \<and> xAxisData (the (realtimeChart (feed demoClock ''M1'' demoSamples initialChartManager)))
       = replicate 50 ''2024-01-01T00:00:00.000Z''
   \<and> withinCapacity (feed demoClock ''M1'' (take 37 demoSamples) initialChartManager)"
proof -
  have h1: "realtimeChart initialChartManager = Some initialRealtimeOption"
    by (simp add: initialChartManager_def)
  have h2: "maxDataPoints initialChartManager = 50"
    by (simp add: initialChartManager_def)
  have h3: "withinCapacity initialChartManager"
    by (simp add: initialChartManager_def initialRealtimeOption_def withinCapacity_def)
  have h4: "length demoSamples = 60"
    by (simp add: demoSamples_def)
  have n: "length (seriesData initialRealtimeOption) = 5"
    by (simp add: initialRealtimeOption_def)
  define final where "final = the (realtimeChart (feed demoClock ''M1'' demoSamples initialChartManager))"
  from realtime_series_keeps_last_50_of_60[OF h1 h2 h3 h4 demo_valid demo_numeric, of "''M1''"] n
  have r: "length (seriesData final) = 5"
    "seriesData final ! 0 = map temperature (drop 10 demoSamples)"
    "seriesData final ! 1 = map vibration (drop 10 demoSamples)"
    "seriesData final ! 2 = map current (drop 10 demoSamples)"
    "seriesData final ! 3 = map speed (drop 10 demoSamples)"
    "seriesData final ! 4 = map pressure (drop 10 demoSamples)"
    "xAxisData final = map (\<lambda>d. the (demoClock (timestamp d))) (drop 10 demoSamples)"
    "withinCapacity (feed demoClock ''M1'' (take 37 demoSamples) initialChartManager)"
    by (auto simp: final_def)
  have t: "seriesData final ! 0 = map (\<lambda>n. JNum (of_nat n)) [10..<60]"
    using r(2) by (simp add: demo_last_50 demoSample_def)
  have t0: "seriesData final ! 0 ! 0 = JNum 10" using t by simp
  have t49: "seriesData final ! 0 ! 49 = JNum 59" using t by simp
  have c1: "seriesData final ! 1 = replicate 50 (JNum 0)"
    using r(3) by (simp add: demo_constant_reading demoSample_def)
  have c2: "seriesData final ! 2 = replicate 50 (JNum 1)"
    using r(4) by (simp add: demo_constant_reading demoSample_def)
  have c3: "seriesData final ! 3 = replicate 50 (JNum 2)"
    using r(5) by (simp add: demo_constant_reading demoSample_def)
  have c4: "seriesData final ! 4 = replicate 50 (JNum 3)"
    using r(6) by (simp add: demo_constant_reading demoSample_def)
  have x: "xAxisData final = replicate 50 ''2024-01-01T00:00:00.000Z''"
    using r(7) by (simp add: demo_constant_reading demoSample_def demoClock_def)
  show ?thesis
    using h1 h2 h3 h4 demo_valid demo_numeric n r(1) t t0 t49 c1 c2 c3 c4 x r(8)
    unfolding final_def by simp
qed

section \<open>Properties of the realtime client\<close>

subsection \<open>What sending and listeners can change\<close>

text \<open>
  \<open>send\<close>, \<open>subscribe\<close> and \<open>unsubscribe\<close> in closed form, and the shape of the
  state after listeners ran: besides the record of the calls, only the frames sent,
  the console and the subscription set can differ.
\<close>

lemma send_eq:
  "send e m s =
     (canSend e s,
      s\<lparr>sent := sent s @ (if canSend e s then [(the (ws s), m)] else []),
        console := console s @ [if canSend e s then LogLevel
                                else if isConnected s \<and> ws s \<noteq> None then ErrorLevel else WarnLevel]\<rparr>)"
  by (auto simp: send_def canSend_def consoleOut_def split: option.splits)

lemma subscribe_eq:
  "subscribe e t s =
     (canSend e s,
      s\<lparr>sent := sent s @ (if canSend e s then [(the (ws s), Json (subscribeMessage t))] else []),
        console := console s @ (if canSend e s then [LogLevel, LogLevel]
                                else if isConnected s \<and> ws s \<noteq> None then [ErrorLevel] else [WarnLevel]),
        subscriptions := (if canSend e s then setAdd t (subscriptions s) else subscriptions s)\<rparr>)"
  by (simp add: subscribe_def send_eq consoleOut_def)

lemma unsubscribe_eq:
  "unsubscribe e t s =
     (canSend e s,
      s\<lparr>sent := sent s @ (if canSend e s then [(the (ws s), Json (unsubscribeMessage t))] else []),
        console := console s @ (if canSend e s then [LogLevel, LogLevel]
                                else if isConnected s \<and> ws s \<noteq> None then [ErrorLevel] else [WarnLevel]),
        subscriptions := (if canSend e s then setDelete t (subscriptions s) else subscriptions s)\<rparr>)"
  by (simp add: unsubscribe_def send_eq consoleOut_def)

lemma shape_refl:
  "\<exists>snt con subs. s = s\<lparr>sent := snt, console := con, subscriptions := subs\<rparr>"
  by (rule exI[of _ "sent s"], rule exI[of _ "console s"], rule exI[of _ "subscriptions s"]) simp

lemma runActions_shape:
  "\<exists>snt con subs. stateOf (runActions e as s) = s\<lparr>sent := snt, console := con, subscriptions := subs\<rparr>"
proof (induction e as s rule: runActions.induct)
  case (1 e s)
  have "s = s\<lparr>sent := sent s, console := console s, subscriptions := subscriptions s\<rparr>" by simp
  then show ?case by (metis runActions.simps(1) stateOf.simps(1))
next
  case (2 e as s)
  have "s = s\<lparr>sent := sent s, console := console s, subscriptions := subscriptions s\<rparr>" by simp
  then show ?case by (metis runActions.simps(2) stateOf.simps(2))
next
  case (3 e t as s)
  then obtain snt con subs where
    "stateOf (runActions e as (snd (subscribe e t s))) =
       (snd (subscribe e t s))\<lparr>sent := snt, console := con, subscriptions := subs\<rparr>" by blast
  then have "stateOf (runActions e (CallSubscribe t # as) s) =
       s\<lparr>sent := snt, console := con, subscriptions := subs\<rparr>"
    by (simp add: subscribe_eq)
  then show ?case by blast
next
  case (4 e t as s)
  then obtain snt con subs where
    "stateOf (runActions e as (snd (unsubscribe e t s))) =
       (snd (unsubscribe e t s))\<lparr>sent := snt, console := con, subscriptions := subs\<rparr>" by blast
  then have "stateOf (runActions e (CallUnsubscribe t # as) s) =
       s\<lparr>sent := snt, console := con, subscriptions := subs\<rparr>"
    by (simp add: unsubscribe_eq)
  then show ?case by blast
next
  case (5 e m as s)
  then obtain snt con subs where
    "stateOf (runActions e as (snd (send e m s))) =
       (snd (send e m s))\<lparr>sent := snt, console := con, subscriptions := subs\<rparr>" by blast
  then have "stateOf (runActions e (CallSend m # as) s) =
       s\<lparr>sent := snt, console := con, subscriptions := subs\<rparr>"
    by (simp add: send_eq)
  then show ?case by blast
qed

lemma invoke_shape:
  "\<exists>snt con subs. invoke e t d h s =
     s\<lparr>calls := calls s @ [(hid h, t, d)], sent := snt, console := con, subscriptions := subs\<rparr>"
proof -
  obtain snt con subs where r:
    "stateOf (runActions e (body h d) (s\<lparr>calls := calls s @ [(hid h, t, d)]\<rparr>)) =
       (s\<lparr>calls := calls s @ [(hid h, t, d)]\<rparr>)\<lparr>sent := snt, console := con, subscriptions := subs\<rparr>"
    using runActions_shape by blast
  show ?thesis
  proof (cases "runActions e (body h d) (s\<lparr>calls := calls s @ [(hid h, t, d)]\<rparr>)")
    case (Returned s')
    with r have "invoke e t d h s =
       s\<lparr>calls := calls s @ [(hid h, t, d)], sent := snt, console := con, subscriptions := subs\<rparr>"
      by (simp add: invoke_def)
    then show ?thesis by blast
  next
    case (Threw s')
    with r have "invoke e t d h s =
       s\<lparr>calls := calls s @ [(hid h, t, d)], sent := snt, console := con @ [ErrorLevel], subscriptions := subs\<rparr>"
      by (simp add: invoke_def consoleOut_def)
    then show ?thesis by blast
  qed
qed

lemma fold_invoke_shape:
  "\<exists>snt con subs. fold (invoke e t d) hs s =
     s\<lparr>calls := calls s @ map (\<lambda>h. (hid h, t, d)) hs, sent := snt, console := con, subscriptions := subs\<rparr>"
proof (induction hs arbitrary: s)
  case Nil
  have "s = s\<lparr>calls := calls s, sent := sent s, console := console s, subscriptions := subscriptions s\<rparr>"
    by simp
  then show ?case by (metis append_Nil2 fold_simps(1) list.simps(8))
next
  case (Cons h hs)
  obtain a b c where i: "invoke e t d h s =
     s\<lparr>calls := calls s @ [(hid h, t, d)], sent := a, console := b, subscriptions := c\<rparr>"
    using invoke_shape by blast
  obtain snt con subs where f: "fold (invoke e t d) hs (invoke e t d h s) =
     (invoke e t d h s)\<lparr>calls := calls (invoke e t d h s) @ map (\<lambda>h. (hid h, t, d)) hs,
        sent := snt, console := con, subscriptions := subs\<rparr>"
    using Cons.IH by blast
  have "fold (invoke e t d) (h # hs) s =
     s\<lparr>calls := calls s @ map (\<lambda>h. (hid h, t, d)) (h # hs), sent := snt, console := con, subscriptions := subs\<rparr>"
    using f by (simp add: i)
  then show ?case by blast
qed

lemma emit_shape:
  "\<exists>snt con subs. emit e t d s =
     s\<lparr>calls := calls s @ map (\<lambda>h. (hid h, t, d)) (listeners s t),
       sent := snt, console := con, subscriptions := subs\<rparr>"
proof (cases "messageHandlers s t")
  case None
  then show ?thesis by (simp add: emit_def listeners_def shape_refl)
next
  case (Some hs)
  with fold_invoke_shape[of e t d hs s] show ?thesis by (simp add: emit_def listeners_def)
qed

subsection \<open>Heartbeat messages\<close>

lemma handleByType_ping:
  "handleByType e (JStr ''ping'') message s = Returned (snd (send e (Json (pongMessage (now e))) s))"
  by (simp add: handleByType_def handlePingMessage_def)

lemma listeners_after_emit: "listeners (emit e t d s) u = listeners s u"
proof -
  obtain snt con subs where "emit e t d s =
     s\<lparr>calls := calls s @ map (\<lambda>h. (hid h, t, d)) (listeners s t),
       sent := snt, console := con, subscriptions := subs\<rparr>"
    using emit_shape by blast
  then show ?thesis by (simp add: listeners_def)
qed

lemma calls_after_emit: "calls (emit e t d s) = calls s @ map (\<lambda>h. (hid h, t, d)) (listeners s t)"
proof -
  obtain snt con subs where "emit e t d s =
     s\<lparr>calls := calls s @ map (\<lambda>h. (hid h, t, d)) (listeners s t),
       sent := snt, console := con, subscriptions := subs\<rparr>"
    using emit_shape by blast
  then show ?thesis by simp
qed

text \<open>
  C1, as the code has it: for every inbound message of type \<open>ping\<close>, dispatch first
  makes one attempt to send a \<open>pong\<close> (the frame goes out exactly when the manager is
  connected, holds a socket and the socket accepts it), does not raise, and then
  invokes every listener registered on \<open>message\<close> followed by every listener
  registered on \<open>ping\<close>, each once and in registration order.
\<close>

theorem ping_sends_pong_then_reaches_listeners:
  assumes "getMember message ''type'' = Some (JStr ''ping'')"
  shows "fst (send e (Json (pongMessage (now e))) s) = canSend e s
         \<and> sent (snd (send e (Json (pongMessage (now e))) s)) =
             sent s @ (if canSend e s then [(the (ws s), Json (pongMessage (now e)))] else [])
         \<and> handleMessage e message s =
             Returned (emit e ''ping'' (Msg message)
                        (emit e ''message'' (Msg message) (snd (send e (Json (pongMessage (now e))) s))))
         \<and> calls (stateOf (handleMessage e message s)) =
             calls s @ map (\<lambda>h. (hid h, ''message'', Msg message)) (listeners s ''message'')
                     @ map (\<lambda>h. (hid h, ''ping'', Msg message)) (listeners s ''ping'')"
proof -
  define s1 where "s1 = snd (send e (Json (pongMessage (now e))) s)"
  have c: "handleMessage e message s =
      Returned (emit e ''ping'' (Msg message) (emit e ''message'' (Msg message) s1))"
    using assms by (simp add: handleMessage_def handleByType_ping andThen_def emitKey_def s1_def)
  have l: "listeners s1 t = listeners s t" "calls s1 = calls s" for t
    by (simp_all add: s1_def send_eq listeners_def)
  have d: "calls (stateOf (handleMessage e message s)) =
               calls s @ map (\<lambda>h. (hid h, ''message'', Msg message)) (listeners s ''message'')
                       @ map (\<lambda>h. (hid h, ''ping'', Msg message)) (listeners s ''ping'')"
    by (simp add: c calls_after_emit listeners_after_emit l)
  show ?thesis using c d by (simp add: s1_def send_eq)
qed

lemma demoConnected_fields:
  "ws demoConnected = Some 0" "isConnected demoConnected" "created demoConnected = 1"
  "calls demoConnected = []" "sent demoConnected = []" "subscriptions demoConnected = []"
  "timers demoConnected = []" "fired demoConnected = []"
  "reconnectAttempts demoConnected = 0" "reconnectInterval demoConnected = 5000"
  "maxReconnectAttempts demoConnected = 5"
  "messageHandlers demoConnected = messageHandlers demoRegistered"
  by (simp_all add: demoConnected_def onOpen_def connect_def demoRegistered_def on_def constructor_def
        demoEnv_def resubscribe_def emit_def updateConnectionStatus_def consoleOut_def Let_def)

lemma demoRegistered_listeners:
  "listeners demoRegistered ''message'' = [quietListener 1]"
  "listeners demoRegistered ''ping'' = [quietListener 2]"
  "listeners demoRegistered ''welcome'' = [quietListener 3]"
  "listeners demoRegistered ''max_reconnect_attempts_reached'' = [quietListener 4]"
  "listeners demoRegistered ''connected'' = []"
  "listeners demoRegistered ''disconnected'' = []"
  by (simp_all add: demoRegistered_def on_def constructor_def listeners_def)

lemma demoConnected_listeners: "listeners demoConnected t = listeners demoRegistered t"
  by (simp add: listeners_def demoConnected_fields)

text \<open>The statement of C1 as amended, at a connected client with one listener on each channel.\<close>

theorem ping_sends_pong_then_reaches_listeners_witness:
  "getMember pingMsg ''type'' = Some (JStr ''ping'')
   \<and> sent (snd (send demoEnv (Json (pongMessage (now demoEnv))) demoConnected)) =
       [(0, Json (pongMessage (now demoEnv)))]
   \<and> calls (stateOf (handleMessage demoEnv pingMsg demoConnected)) =
       [(1, ''message'', Msg pingMsg), (2, ''ping'', Msg pingMsg)]"
proof -
  have h: "getMember pingMsg ''type'' = Some (JStr ''ping'')"
    by (simp add: getMember_def property_def pingMsg_def)
  have cs: "canSend demoEnv demoConnected"
    by (simp add: canSend_def demoConnected_fields demoEnv_def)
  note t = ping_sends_pong_then_reaches_listeners[OF h, of demoEnv demoConnected]
  have a: "sent (snd (send demoEnv (Json (pongMessage (now demoEnv))) demoConnected)) =
       [(0, Json (pongMessage (now demoEnv)))]"
    using t cs by (simp add: demoConnected_fields)
  have b: "calls (stateOf (handleMessage demoEnv pingMsg demoConnected)) =
       [(1, ''message'', Msg pingMsg), (2, ''ping'', Msg pingMsg)]"
    using conjunct2[OF conjunct2[OF conjunct2[OF t]]]
    by (simp add: demoConnected_fields demoConnected_listeners demoRegistered_listeners quietListener_def)
  show ?thesis using h a b by simp
qed

text \<open>
  C1 as the specification states it fails: a \<open>ping\<close> frame reaches the listener
  on \<open>message\<close> and the listener on \<open>ping\<close>.
\<close>

theorem ping_reaches_listeners_counterexample:
  "calls (onMessage demoEnv pingFrame demoConnected) =
     [(1, ''message'', Msg pingMsg), (2, ''ping'', Msg pingMsg)]"
  by (simp add: onMessage_def demoEnv_def demoParse_def handleMessage_def getMember_def property_def
        pingMsg_def handleByType_def handlePingMessage_def andThen_def emitKey_def emit_def send_def
        consoleOut_def demoConnected_fields demoRegistered_def on_def constructor_def invoke_def
        quietListener_def)

subsection \<open>The subscription set\<close>

lemma fold_subscribe_connected:
  assumes "canSend e s" and "set ts \<subseteq> set (subscriptions s)"
  shows "\<exists>con. fold (\<lambda>machineId st. snd (subscribe e machineId st)) ts s =
           s\<lparr>sent := sent s @ map (\<lambda>t. (the (ws s), Json (subscribeMessage t))) ts, console := con\<rparr>"
  using assms
proof (induction ts arbitrary: s)
  case Nil
  have "s = s\<lparr>sent := sent s, console := console s\<rparr>" by simp
  then show ?case by (metis append_Nil2 fold_simps(1) list.simps(8))
next
  case (Cons t ts)
  define s1 where "s1 = snd (subscribe e t s)"
  have s1: "s1 = s\<lparr>sent := sent s @ [(the (ws s), Json (subscribeMessage t))],
                    console := console s @ [LogLevel, LogLevel]\<rparr>"
    using Cons.prems by (simp add: s1_def subscribe_eq setAdd_def)
  have c1: "canSend e s1" using Cons.prems(1) by (simp add: s1 canSend_def)
  have m1: "set ts \<subseteq> set (subscriptions s1)" using Cons.prems(2) by (simp add: s1)
  from Cons.IH[OF c1 m1] obtain con where
    "fold (\<lambda>machineId st. snd (subscribe e machineId st)) ts s1 =
       s1\<lparr>sent := sent s1 @ map (\<lambda>t. (the (ws s1), Json (subscribeMessage t))) ts, console := con\<rparr>"
    by blast
  then have "fold (\<lambda>machineId st. snd (subscribe e machineId st)) (t # ts) s =
       s\<lparr>sent := sent s @ map (\<lambda>t. (the (ws s), Json (subscribeMessage t))) (t # ts), console := con\<rparr>"
    by (simp add: s1_def[symmetric]) (simp add: s1)
  then show ?case by blast
qed

lemma fold_subscribe_blocked:
  assumes "\<not> canSend e s"
  shows "\<exists>con. fold (\<lambda>machineId st. snd (subscribe e machineId st)) ts s = s\<lparr>console := con\<rparr>"
  using assms
proof (induction ts arbitrary: s)
  case Nil
  have "s = s\<lparr>console := console s\<rparr>" by simp
  then show ?case by (metis fold_simps(1))
next
  case (Cons t ts)
  define s1 where "s1 = snd (subscribe e t s)"
  define c where "c = console s @ (if isConnected s \<and> ws s \<noteq> None then [ErrorLevel] else [WarnLevel])"
  have c: "s1 = s\<lparr>console := c\<rparr>"
    using Cons.prems by (simp add: s1_def subscribe_eq c_def)
  have c1: "\<not> canSend e s1" using Cons.prems by (simp add: c canSend_def)
  from Cons.IH[OF c1] obtain con where
    "fold (\<lambda>machineId st. snd (subscribe e machineId st)) ts s1 = s1\<lparr>console := con\<rparr>"
    by blast
  then have "fold (\<lambda>machineId st. snd (subscribe e machineId st)) (t # ts) s = s\<lparr>console := con\<rparr>"
    by (simp add: s1_def[symmetric]) (simp add: c)
  then show ?case by blast
qed

lemma resubscribe_shape:
  "\<exists>con. resubscribe e s =
     s\<lparr>sent := sent s @ (if canSend e s
                          then map (\<lambda>t. (the (ws s), Json (subscribeMessage t))) (subscriptions s)
                          else []),
       console := con\<rparr>"
proof (cases "canSend e s")
  case True
  with fold_subscribe_connected[OF True, of "subscriptions s"] show ?thesis
    by (simp add: resubscribe_def)
next
  case False
  from fold_subscribe_blocked[OF False, of "subscriptions s"] obtain con where
    "resubscribe e s = s\<lparr>console := con\<rparr>" by (auto simp: resubscribe_def)
  then have "resubscribe e s = s\<lparr>sent := sent s @ [], console := con\<rparr>" by simp
  with False show ?thesis by auto
qed

lemma onOpen_eq: "onOpen e s = emit e ''connected'' OpenEvent (resubscribe e (opened s))"
  by (simp add: onOpen_def opened_def)

text \<open>
  C2, as the code has it: \<open>subscribe\<close> adds the topic only when its request went out
  (the manager is connected, holds a socket and the socket accepts the frame); otherwise
  it returns \<open>false\<close>, leaves the set as it was and sets no timer, so nothing is
  deferred. On every open, the resubscription step of \<open>onOpen\<close> leaves the set as it
  was and, when the manager holds a socket that accepts frames, sends one subscribe
  request for each topic of the set, in the set's order, before the \<open>connected\<close>
  listeners run.
\<close>

theorem subscribe_requires_connection_and_open_reasserts_registry:
  "fst (subscribe e t s) = canSend e s
   \<and> subscriptions (snd (subscribe e t s)) =
       (if canSend e s then setAdd t (subscriptions s) else subscriptions s)
   \<and> sent (snd (subscribe e t s)) =
       sent s @ (if canSend e s then [(the (ws s), Json (subscribeMessage t))] else [])
   \<and> timers (snd (subscribe e t s)) = timers s
   \<and> onOpen e s = emit e ''connected'' OpenEvent (resubscribe e (opened s))
   \<and> subscriptions (resubscribe e (opened s)) = subscriptions s
   \<and> sent (resubscribe e (opened s)) =
       sent s @ (if ws s \<noteq> None \<and> \<not> wsSendThrows e
                 then map (\<lambda>t. (the (ws s), Json (subscribeMessage t))) (subscriptions s)
                 else [])"
proof -
  obtain con where r: "resubscribe e (opened s) =
     (opened s)\<lparr>sent := sent (opened s) @ (if canSend e (opened s)
                          then map (\<lambda>t. (the (ws (opened s)), Json (subscribeMessage t))) (subscriptions (opened s))
                          else []),
       console := con\<rparr>"
    using resubscribe_shape by blast
  have o: "sent (opened s) = sent s" "subscriptions (opened s) = subscriptions s"
    "ws (opened s) = ws s" "canSend e (opened s) = (ws s \<noteq> None \<and> \<not> wsSendThrows e)"
    by (simp_all add: opened_def updateConnectionStatus_def consoleOut_def canSend_def)
  have a: "subscriptions (resubscribe e (opened s)) = subscriptions s"
    by (simp add: r o)
  have b: "sent (resubscribe e (opened s)) =
       sent s @ (if ws s \<noteq> None \<and> \<not> wsSendThrows e
                 then map (\<lambda>t. (the (ws s), Json (subscribeMessage t))) (subscriptions s)
                 else [])"
    by (simp add: r o)
  show ?thesis using a b by (simp add: subscribe_eq onOpen_eq)
qed

text \<open>
  C2 as the specification states it fails: a subscribe call made before the connection
  exists adds nothing, and the open that follows re-asserts nothing.
\<close>

theorem subscribe_while_disconnected_counterexample:
  "fst (subscribe demoEnv ''M1'' demoRegistered) = False
   \<and> subscriptions (snd (subscribe demoEnv ''M1'' demoRegistered)) = []
   \<and> sent (onOpen demoEnv (connect demoEnv (snd (subscribe demoEnv ''M1'' demoRegistered)))) = []"
  by (simp add: subscribe_def send_def demoRegistered_def on_def constructor_def consoleOut_def
        onOpen_def connect_def updateConnectionStatus_def demoEnv_def resubscribe_def emit_def Let_def)

text \<open>
  C6, as the code has it: \<open>unsubscribe\<close> removes the topic only when its request went
  out; when the manager cannot send it returns \<open>false\<close> (it does not raise), sends
  nothing and leaves the set as it was.
\<close>

theorem unsubscribe_requires_connection:
  "fst (unsubscribe e t s) = canSend e s
   \<and> set (subscriptions (snd (unsubscribe e t s))) =
       (if canSend e s then set (subscriptions s) - {t} else set (subscriptions s))
   \<and> subscriptions (snd (unsubscribe e t s)) =
       (if canSend e s then setDelete t (subscriptions s) else subscriptions s)
   \<and> sent (snd (unsubscribe e t s)) =
       sent s @ (if canSend e s then [(the (ws s), Json (unsubscribeMessage t))] else [])"
  by (auto simp: unsubscribe_eq setDelete_def)

lemma demoSubscribed_fields:
  "subscriptions demoSubscribed = [''M1'']" "ws demoSubscribed = Some 0" "isConnected demoSubscribed"
  "messageHandlers demoSubscribed = messageHandlers demoRegistered"
  "timers demoSubscribed = []" "fired demoSubscribed = []" "created demoSubscribed = 1"
  "reconnectAttempts demoSubscribed = 0" "reconnectInterval demoSubscribed = 5000"
  "maxReconnectAttempts demoSubscribed = 5"
  "sent demoSubscribed = [(0, Json (subscribeMessage ''M1''))]"
  by (simp_all add: demoSubscribed_def subscribe_eq canSend_def demoConnected_fields demoEnv_def setAdd_def)

lemma demoLost_fields:
  "subscriptions demoLost = [''M1'']" "ws demoLost = Some 0" "\<not> isConnected demoLost"
  "timers demoLost = [5000]" "fired demoLost = []" "created demoLost = 1"
  "reconnectAttempts demoLost = 1" "reconnectInterval demoLost = 7500"
  "maxReconnectAttempts demoLost = 5"
  "messageHandlers demoLost = messageHandlers demoRegistered"
  by (simp_all add: demoLost_def onClose_def Let_def emit_def scheduleReconnect_def
        updateConnectionStatus_def consoleOut_def demoSubscribed_fields demoRegistered_def on_def
        constructor_def)

text \<open>
  C6 as the specification states it fails: after the connection is lost, unsubscribing
  a subscribed machine leaves it in the set.
\<close>

theorem unsubscribe_while_disconnected_counterexample:
  "fst (unsubscribe demoEnv ''M1'' demoLost) = False
   \<and> subscriptions (snd (unsubscribe demoEnv ''M1'' demoLost)) = [''M1'']"
  by (simp add: unsubscribe_def send_def demoLost_fields consoleOut_def)

subsection \<open>Connection lifecycle\<close>

lemma onOpen_shape:
  "\<exists>cls snt con subs. onOpen e s =
     s\<lparr>isConnected := True, reconnectAttempts := 0, connectionStatus := ''connected'',
       calls := cls, sent := snt, console := con, subscriptions := subs\<rparr>"
proof -
  obtain con where r: "resubscribe e (opened s) =
     (opened s)\<lparr>sent := sent (opened s) @ (if canSend e (opened s)
                          then map (\<lambda>t. (the (ws (opened s)), Json (subscribeMessage t))) (subscriptions (opened s))
                          else []),
       console := con\<rparr>"
    using resubscribe_shape by blast
  obtain snt con' subs where m: "emit e ''connected'' OpenEvent (resubscribe e (opened s)) =
     (resubscribe e (opened s))\<lparr>calls := calls (resubscribe e (opened s))
          @ map (\<lambda>h. (hid h, ''connected'', OpenEvent)) (listeners (resubscribe e (opened s)) ''connected''),
       sent := snt, console := con', subscriptions := subs\<rparr>"
    using emit_shape by blast
  have "onOpen e s =
     s\<lparr>isConnected := True, reconnectAttempts := 0, connectionStatus := ''connected'',
       calls := calls (resubscribe e (opened s))
          @ map (\<lambda>h. (hid h, ''connected'', OpenEvent)) (listeners (resubscribe e (opened s)) ''connected''),
       sent := snt, console := con', subscriptions := subs\<rparr>"
    unfolding onOpen_eq m unfolding r
    by (simp add: opened_def updateConnectionStatus_def consoleOut_def)
  then show ?thesis by blast
qed

lemma onOpen_fields:
  "reconnectAttempts (onOpen e s) = 0"
  "reconnectInterval (onOpen e s) = reconnectInterval s"
  "isConnected (onOpen e s)"
proof -
  obtain cls snt con subs where o: "onOpen e s =
     s\<lparr>isConnected := True, reconnectAttempts := 0, connectionStatus := ''connected'',
       calls := cls, sent := snt, console := con, subscriptions := subs\<rparr>"
    using onOpen_shape by blast
  show "reconnectAttempts (onOpen e s) = 0" by (simp add: o)
  show "reconnectInterval (onOpen e s) = reconnectInterval s" by (simp add: o)
  show "isConnected (onOpen e s)" by (simp add: o)
qed

text \<open>
  C3, as the code has it: after every open the attempt counter is 0 and the manager is
  connected; the reconnect delay is the one the manager had before the open (5000 ms
  in a manager fresh from the constructor).
\<close>

theorem open_resets_attempts_and_keeps_interval:
  "reconnectAttempts (onOpen e s) = 0
   \<and> reconnectInterval (onOpen e s) = reconnectInterval s
   \<and> isConnected (onOpen e s)
   \<and> reconnectInterval constructor = 5000"
  by (simp add: onOpen_fields constructor_def)

lemma connect_ok:
  "\<not> newWebSocketThrows e \<Longrightarrow>
   connect e s = s\<lparr>console := console s @ [LogLevel], connectionStatus := ''connecting'',
                    ws := Some (created s), created := Suc (created s)\<rparr>"
  by (simp add: connect_def Let_def updateConnectionStatus_def consoleOut_def)

lemma pendingTimers_demoLost: "pendingTimers demoLost = [0]"
  by (simp add: pendingTimers_def demoLost_fields)

lemma demoRetried_fields:
  "reconnectInterval (timerFires demoEnv 0 demoLost) = 7500"
  "reconnectAttempts (timerFires demoEnv 0 demoLost) = 1"
  "ws (timerFires demoEnv 0 demoLost) = Some 1"
  by (simp_all add: timerFires_def pendingTimers_demoLost connect_ok demoEnv_def demoLost_fields)

text \<open>
  C3 as the specification states it fails: after one unexpected close the delay is
  7500 ms, and it still is after the retry succeeded.
\<close>

theorem open_after_backoff_counterexample:
  "reconnectInterval (timerFires demoEnv 0 demoLost) = 7500
   \<and> reconnectAttempts demoReconnected = 0
   \<and> reconnectInterval demoReconnected = 7500"
  by (simp add: demoReconnected_def onOpen_fields demoRetried_fields)

lemma disconnect_eq:
  "disconnect s = s\<lparr>closedSockets := closedSockets s @ (case ws s of Some w \<Rightarrow> [w] | None \<Rightarrow> []),
                     ws := None, isConnected := False, connectionStatus := ''disconnected''\<rparr>"
  by (simp add: disconnect_def updateConnectionStatus_def split: option.splits)

text \<open>
  C4, as the code has it: \<open>disconnect\<close> closes and forgets the current socket and
  marks the manager disconnected; it leaves every reconnect timer pending, and a pending
  timer that runs afterwards constructs a new socket (when the constructor does not raise).
\<close>

theorem disconnect_keeps_reconnect_timer:
  "timers (disconnect s) = timers s
   \<and> pendingTimers (disconnect s) = pendingTimers s
   \<and> closedSockets (disconnect s) = closedSockets s @ (case ws s of Some w \<Rightarrow> [w] | None \<Rightarrow> [])
   \<and> ws (disconnect s) = None
   \<and> \<not> isConnected (disconnect s)
   \<and> (i \<in> set (pendingTimers s) \<and> \<not> newWebSocketThrows e \<longrightarrow>
        ws (timerFires e i (disconnect s)) = Some (created s)
        \<and> created (timerFires e i (disconnect s)) = Suc (created s)
        \<and> connectionStatus (timerFires e i (disconnect s)) = ''connecting'')"
  by (simp add: disconnect_eq pendingTimers_def timerFires_def connect_ok)

text \<open>
  The statement of C4 as amended, at the client that lost its connection and has one
  retry pending.
\<close>

theorem disconnect_keeps_reconnect_timer_witness:
  "0 \<in> set (pendingTimers demoLost) \<and> \<not> newWebSocketThrows demoEnv
   \<and> pendingTimers (disconnect demoLost) = [0]
   \<and> ws (timerFires demoEnv 0 (disconnect demoLost)) = Some 1
   \<and> created (timerFires demoEnv 0 (disconnect demoLost)) = 2"
  using disconnect_keeps_reconnect_timer[of demoLost 0 demoEnv]
  by (simp add: pendingTimers_demoLost demoEnv_def demoLost_fields)

text \<open>
  C4 as the specification states it fails: the retry scheduled before \<open>disconnect\<close>
  is still pending after it, and when it runs a second socket is constructed.
\<close>

theorem disconnect_with_pending_timer_counterexample:
  "pendingTimers demoLost = [0]
   \<and> pendingTimers (disconnect demoLost) = [0]
   \<and> ws (disconnect demoLost) = None
   \<and> ws (timerFires demoEnv 0 (disconnect demoLost)) = Some 1
   \<and> created (timerFires demoEnv 0 (disconnect demoLost)) = 2"
  by (simp add: disconnect_eq pendingTimers_def timerFires_def connect_ok demoEnv_def demoLost_fields)

text \<open>
  C5, as the code has it: \<open>connect\<close> has no guard. In every state, when the constructor
  does not raise, it constructs a new socket that replaces the current one, closes
  nothing, shows the status connecting and leaves \<open>isConnected\<close> as it was.
\<close>

theorem connect_always_constructs_socket:
  assumes "\<not> newWebSocketThrows e"
  shows "created (connect e s) = Suc (created s)
         \<and> ws (connect e s) = Some (created s)
         \<and> closedSockets (connect e s) = closedSockets s
         \<and> isConnected (connect e s) = isConnected s
         \<and> connectionStatus (connect e s) = ''connecting''"
  using assms by (simp add: connect_ok)

text \<open>
  The statement of C5 as amended, at a connected client.
\<close>

theorem connect_always_constructs_socket_witness:
  "\<not> newWebSocketThrows demoEnv
   \<and> isConnected demoConnected
   \<and> created (connect demoEnv demoConnected) = 2
   \<and> ws (connect demoEnv demoConnected) = Some 1
   \<and> isConnected (connect demoEnv demoConnected)"
proof -
  have h: "\<not> newWebSocketThrows demoEnv" by (simp add: demoEnv_def)
  show ?thesis
    using connect_always_constructs_socket[OF h, of demoConnected] h
    by (simp add: demoConnected_fields)
qed

text \<open>
  C5 as the specification states it fails: \<open>connect\<close> on a connected client, and on
  one that is connecting, constructs a second socket.
\<close>

theorem connect_while_connected_counterexample:
  "isConnected demoConnected \<and> ws demoConnected = Some 0 \<and> created demoConnected = 1
   \<and> ws (connect demoEnv demoConnected) = Some 1
   \<and> created (connect demoEnv demoConnected) = 2
   \<and> closedSockets (connect demoEnv demoConnected) = closedSockets demoConnected
   \<and> connectionStatus (connect demoEnv demoRegistered) = ''connecting''
   \<and> created (connect demoEnv (connect demoEnv demoRegistered)) = 2"
  by (simp add: connect_ok demoEnv_def demoConnected_fields demoRegistered_def on_def constructor_def)

text \<open>
  C9: a frame that \<open>JSON.parse\<close> rejects makes \<open>onMessage\<close> return (it has no
  path that raises) in the state it started in, with one more error line on the
  console; \<open>isConnected\<close>, the socket and the status shown are unchanged, no listener
  is invoked and nothing is sent.
\<close>

theorem malformed_frame_is_logged_and_dropped:
  assumes "JSON_parse e frame = None"
  shows "onMessage e frame s = s\<lparr>console := console s @ [ErrorLevel]\<rparr>
         \<and> isConnected (onMessage e frame s) = isConnected s
         \<and> ws (onMessage e frame s) = ws s
         \<and> connectionStatus (onMessage e frame s) = connectionStatus s
         \<and> calls (onMessage e frame s) = calls s
         \<and> sent (onMessage e frame s) = sent s"
  using assms by (simp add: onMessage_def consoleOut_def)

text \<open>
  The statement of C9 at a connected client and a frame that is not JSON.
\<close>

theorem malformed_frame_is_logged_and_dropped_witness:
  "JSON_parse demoEnv ''not json'' = None
   \<and> isConnected (onMessage demoEnv ''not json'' demoConnected)
   \<and> ws (onMessage demoEnv ''not json'' demoConnected) = Some 0
   \<and> calls (onMessage demoEnv ''not json'' demoConnected) = []"
proof -
  have h: "JSON_parse demoEnv ''not json'' = None"
    by (simp add: demoEnv_def demoParse_def pingFrame_def welcomeFrame_def)
  show ?thesis
    using malformed_frame_is_logged_and_dropped[OF h, of demoConnected] h
    by (simp add: demoConnected_fields)
qed

subsection \<open>Dispatch to listeners\<close>

text \<open>
  A message whose type has no \<open>case\<close> of its own reaches the wildcard listeners and
  then the listeners of its type, each once. A \<open>welcome\<close> message reaches the listeners
  of its type from \<open>handleWelcomeMessage\<close> and again from the end of
  \<open>handleMessage\<close>. By \<open>calls_after_emit\<close> a listener that raises does not keep the
  listeners after it from running.
\<close>

lemma consoleOut_keeps:
  "listeners (consoleOut lv s) u = listeners s u" "calls (consoleOut lv s) = calls s"
  by (simp_all add: listeners_def consoleOut_def)

lemma handleByType_unhandled:
  "t \<notin> set handledTypes \<Longrightarrow> handleByType e (JStr t) message s = Returned (consoleOut WarnLevel s)"
  by (simp add: handledTypes_def handleByType_def)

lemma unhandled_type_reaches_each_listener_once:
  assumes "getMember message ''type'' = Some (JStr t)" and "t \<notin> set handledTypes"
  shows "calls (stateOf (handleMessage e message s)) =
           calls s @ map (\<lambda>h. (hid h, ''message'', Msg message)) (listeners s ''message'')
                   @ map (\<lambda>h. (hid h, t, Msg message)) (listeners s t)"
proof -
  have "handleMessage e message s =
      Returned (emit e t (Msg message) (emit e ''message'' (Msg message) (consoleOut WarnLevel s)))"
    using assms by (simp add: handleMessage_def handleByType_unhandled andThen_def emitKey_def)
  then show ?thesis
    by (simp add: calls_after_emit listeners_after_emit consoleOut_keeps)
qed

lemma welcome_reaches_type_listeners_twice:
  assumes "getMember message ''type'' = Some (JStr ''welcome'')"
  shows "calls (stateOf (handleMessage e message s)) =
           calls s @ map (\<lambda>h. (hid h, ''welcome'', Msg message)) (listeners s ''welcome'')
                   @ map (\<lambda>h. (hid h, ''message'', Msg message)) (listeners s ''message'')
                   @ map (\<lambda>h. (hid h, ''welcome'', Msg message)) (listeners s ''welcome'')"
proof -
  have "handleMessage e message s =
      Returned (emit e ''welcome'' (Msg message) (emit e ''message'' (Msg message)
                 (emit e ''welcome'' (Msg message) (consoleOut LogLevel s))))"
    using assms
    by (simp add: handleMessage_def handleByType_def handleWelcomeMessage_def andThen_def emitKey_def)
  then show ?thesis
    by (simp add: calls_after_emit listeners_after_emit consoleOut_keeps)
qed

lemma raising_listener_does_not_stop_the_next:
  "calls (emit demoEnv ''alarm'' NoData
            (on ''alarm'' (quietListener 2) (on ''alarm'' (raisingListener 1) constructor))) =
     [(1, ''alarm'', NoData), (2, ''alarm'', NoData)]"
  by (simp add: calls_after_emit listeners_def on_def constructor_def quietListener_def
        raisingListener_def)

text \<open>
  C10 at a \<open>welcome\<close> frame, with one listener on \<open>message\<close> (1) and one on
  \<open>welcome\<close> (3): the \<open>welcome\<close> listener runs before the wildcard listener, and
  runs a second time after it.
\<close>

theorem welcome_listener_invoked_twice:
  "calls (onMessage demoEnv welcomeFrame demoConnected) =
     [(3, ''welcome'', Msg welcomeMsg), (1, ''message'', Msg welcomeMsg), (3, ''welcome'', Msg welcomeMsg)]"
  by (simp add: onMessage_def demoEnv_def demoParse_def pingFrame_def welcomeFrame_def
        handleMessage_def getMember_def property_def
        welcomeMsg_def handleByType_def handleWelcomeMessage_def andThen_def emitKey_def emit_def
        consoleOut_def demoConnected_fields demoRegistered_def on_def constructor_def invoke_def
        quietListener_def)

subsection \<open>Backoff\<close>

lemma onClose_notify_shape:
  "\<exists>snt con subs.
     emit e ''disconnected'' (CloseEvent code reason)
       (updateConnectionStatus ''disconnected'' ((consoleOut LogLevel s)\<lparr>isConnected := False\<rparr>)) =
     s\<lparr>isConnected := False, connectionStatus := ''disconnected'',
       calls := calls s @ map (\<lambda>h. (hid h, ''disconnected'', CloseEvent code reason)) (listeners s ''disconnected''),
       sent := snt, console := con, subscriptions := subs\<rparr>"
proof -
  define s0 where "s0 = updateConnectionStatus ''disconnected'' ((consoleOut LogLevel s)\<lparr>isConnected := False\<rparr>)"
  obtain snt con subs where m: "emit e ''disconnected'' (CloseEvent code reason) s0 =
     s0\<lparr>calls := calls s0 @ map (\<lambda>h. (hid h, ''disconnected'', CloseEvent code reason)) (listeners s0 ''disconnected''),
       sent := snt, console := con, subscriptions := subs\<rparr>"
    using emit_shape by blast
  have "emit e ''disconnected'' (CloseEvent code reason) s0 =
     s\<lparr>isConnected := False, connectionStatus := ''disconnected'',
       calls := calls s @ map (\<lambda>h. (hid h, ''disconnected'', CloseEvent code reason)) (listeners s ''disconnected''),
       sent := snt, console := con, subscriptions := subs\<rparr>"
    unfolding m by (simp add: s0_def updateConnectionStatus_def consoleOut_def listeners_def)
  then show ?thesis unfolding s0_def by blast
qed

lemma onClose_scheduled:
  assumes "code \<noteq> 1000" and "reconnectAttempts s < maxReconnectAttempts s"
  shows "timers (onClose e code reason s) = timers s @ [reconnectInterval s]"
    and "reconnectAttempts (onClose e code reason s) = Suc (reconnectAttempts s)"
    and "reconnectInterval (onClose e code reason s) = min (reconnectInterval s * (3 / 2)) 30000"
    and "maxReconnectAttempts (onClose e code reason s) = maxReconnectAttempts s"
    and "messageHandlers (onClose e code reason s) = messageHandlers s"
    and "fired (onClose e code reason s) = fired s"
proof -
  define cls where "cls = calls s
     @ map (\<lambda>h. (hid h, ''disconnected'', CloseEvent code reason)) (listeners s ''disconnected'')"
  obtain snt con subs where g:
    "emit e ''disconnected'' (CloseEvent code reason)
       (updateConnectionStatus ''disconnected'' ((consoleOut LogLevel s)\<lparr>isConnected := False\<rparr>)) =
     s\<lparr>isConnected := False, connectionStatus := ''disconnected'',
       calls := cls, sent := snt, console := con, subscriptions := subs\<rparr>"
    unfolding cls_def using onClose_notify_shape by blast
  have c: "onClose e code reason s =
     s\<lparr>isConnected := False, connectionStatus := ''disconnected'',
       calls := cls, sent := snt, console := con @ [LogLevel], subscriptions := subs,
       reconnectAttempts := Suc (reconnectAttempts s),
       timers := timers s @ [reconnectInterval s],
       reconnectInterval := min (reconnectInterval s * (3 / 2)) 30000\<rparr>"
    using assms unfolding onClose_def Let_def g
    by (simp add: scheduleReconnect_def consoleOut_def)
  show "timers (onClose e code reason s) = timers s @ [reconnectInterval s]" by (simp add: c)
  show "reconnectAttempts (onClose e code reason s) = Suc (reconnectAttempts s)" by (simp add: c)
  show "reconnectInterval (onClose e code reason s) = min (reconnectInterval s * (3 / 2)) 30000"
    by (simp add: c)
  show "maxReconnectAttempts (onClose e code reason s) = maxReconnectAttempts s" by (simp add: c)
  show "messageHandlers (onClose e code reason s) = messageHandlers s" by (simp add: c)
  show "fired (onClose e code reason s) = fired s" by (simp add: c)
qed

lemma timerFires_keeps:
  assumes "\<not> newWebSocketThrows e"
  shows "timers (timerFires e i s) = timers s"
    and "reconnectAttempts (timerFires e i s) = reconnectAttempts s"
    and "reconnectInterval (timerFires e i s) = reconnectInterval s"
    and "maxReconnectAttempts (timerFires e i s) = maxReconnectAttempts s"
    and "messageHandlers (timerFires e i s) = messageHandlers s"
    and "calls (timerFires e i s) = calls s"
  using assms by (simp_all add: timerFires_def connect_ok)

lemma lossAndRetry_step:
  assumes "code \<noteq> 1000" and "reconnectAttempts s < maxReconnectAttempts s"
    and "\<not> newWebSocketThrows e"
  shows "timers (lossAndRetry e code s) = timers s @ [reconnectInterval s]"
    and "reconnectAttempts (lossAndRetry e code s) = Suc (reconnectAttempts s)"
    and "reconnectInterval (lossAndRetry e code s) = min (reconnectInterval s * (3 / 2)) 30000"
    and "maxReconnectAttempts (lossAndRetry e code s) = maxReconnectAttempts s"
    and "messageHandlers (lossAndRetry e code s) = messageHandlers s"
  using assms
  by (simp_all add: lossAndRetry_def Let_def timerFires_keeps onClose_scheduled)

lemma onClose_exhausted:
  assumes "code \<noteq> 1000" and "\<not> reconnectAttempts s < maxReconnectAttempts s"
  shows "timers (onClose e code reason s) = timers s"
    and "calls (onClose e code reason s) =
           calls s @ map (\<lambda>h. (hid h, ''disconnected'', CloseEvent code reason)) (listeners s ''disconnected'')
                   @ map (\<lambda>h. (hid h, ''max_reconnect_attempts_reached'', NoData))
                       (listeners s ''max_reconnect_attempts_reached'')"
    and "reconnectAttempts (onClose e code reason s) = reconnectAttempts s"
proof -
  define s1 where "s1 = emit e ''disconnected'' (CloseEvent code reason)
       (updateConnectionStatus ''disconnected'' ((consoleOut LogLevel s)\<lparr>isConnected := False\<rparr>))"
  obtain snt con subs where g: "s1 =
     s\<lparr>isConnected := False, connectionStatus := ''disconnected'',
       calls := calls s @ map (\<lambda>h. (hid h, ''disconnected'', CloseEvent code reason)) (listeners s ''disconnected''),
       sent := snt, console := con, subscriptions := subs\<rparr>"
    unfolding s1_def using onClose_notify_shape by blast
  have c: "onClose e code reason s =
      emit e ''max_reconnect_attempts_reached'' NoData (consoleOut ErrorLevel s1)"
    using assms by (simp add: onClose_def Let_def s1_def[symmetric] scheduleReconnect_def g)
  obtain snt' con' subs' where m: "emit e ''max_reconnect_attempts_reached'' NoData (consoleOut ErrorLevel s1) =
     (consoleOut ErrorLevel s1)\<lparr>calls := calls (consoleOut ErrorLevel s1)
          @ map (\<lambda>h. (hid h, ''max_reconnect_attempts_reached'', NoData))
              (listeners (consoleOut ErrorLevel s1) ''max_reconnect_attempts_reached''),
       sent := snt', console := con', subscriptions := subs'\<rparr>"
    using emit_shape by blast
  show "timers (onClose e code reason s) = timers s"
    unfolding c m by (simp add: consoleOut_def g)
  show "calls (onClose e code reason s) =
           calls s @ map (\<lambda>h. (hid h, ''disconnected'', CloseEvent code reason)) (listeners s ''disconnected'')
                   @ map (\<lambda>h. (hid h, ''max_reconnect_attempts_reached'', NoData))
                       (listeners s ''max_reconnect_attempts_reached'')"
    unfolding c m by (simp add: consoleOut_def g listeners_def)
  show "reconnectAttempts (onClose e code reason s) = reconnectAttempts s"
    unfolding c m by (simp add: consoleOut_def g)
qed

lemma length5: "length xs = 5 \<Longrightarrow> \<exists>a b c d f. xs = [a, b, c, d, f]"
  by (auto simp: length_Suc_conv eval_nat_numeral)

text \<open>
  C7: from attempt count 0, delay 5000 ms and at most 5 attempts (growth 1.5 and the cap
  of 30000 ms are fixed in \<open>scheduleReconnect\<close>), five unexpected closes, each followed
  by its retry, schedule the delays 5000, 7500, 11250, 16875 and 25312.5 ms; a sixth
  unexpected close schedules nothing and invokes the listeners of
  \<open>max_reconnect_attempts_reached\<close> (after those of \<open>disconnected\<close>).
\<close>

theorem default_backoff_schedule:
  assumes "reconnectAttempts s = 0" and "reconnectInterval s = 5000" and "maxReconnectAttempts s = 5"
    and "\<not> newWebSocketThrows e"
    and "length codes = 5" and "list_all (\<lambda>c. c \<noteq> 1000) codes" and "code6 \<noteq> 1000"
  shows "timers (fold (lossAndRetry e) codes s) = timers s @ [5000, 7500, 11250, 16875, 50625 / 2]
         \<and> timers (onClose e code6 reason (fold (lossAndRetry e) codes s)) =
             timers (fold (lossAndRetry e) codes s)
         \<and> calls (onClose e code6 reason (fold (lossAndRetry e) codes s)) =
             calls (fold (lossAndRetry e) codes s)
               @ map (\<lambda>h. (hid h, ''disconnected'', CloseEvent code6 reason)) (listeners s ''disconnected'')
               @ map (\<lambda>h. (hid h, ''max_reconnect_attempts_reached'', NoData))
                   (listeners s ''max_reconnect_attempts_reached'')"
proof -
  obtain c1 c2 c3 c4 c5 where codes: "codes = [c1, c2, c3, c4, c5]"
    using length5[OF assms(5)] by blast
  have ne: "c1 \<noteq> 1000" "c2 \<noteq> 1000" "c3 \<noteq> 1000" "c4 \<noteq> 1000" "c5 \<noteq> 1000"
    using assms(6) by (simp_all add: codes)
  define s1 where "s1 = lossAndRetry e c1 s"
  define s2 where "s2 = lossAndRetry e c2 s1"
  define s3 where "s3 = lossAndRetry e c3 s2"
  define s4 where "s4 = lossAndRetry e c4 s3"
  define s5 where "s5 = lossAndRetry e c5 s4"
  have f: "fold (lossAndRetry e) codes s = s5"
    by (simp add: codes s1_def s2_def s3_def s4_def s5_def)
  have p1: "timers s1 = timers s @ [5000]" "reconnectAttempts s1 = 1" "reconnectInterval s1 = 7500"
    "maxReconnectAttempts s1 = 5" "messageHandlers s1 = messageHandlers s"
    unfolding s1_def using assms(1-4) ne(1) by (simp_all add: lossAndRetry_step)
  have p2: "timers s2 = timers s @ [5000, 7500]" "reconnectAttempts s2 = 2" "reconnectInterval s2 = 11250"
    "maxReconnectAttempts s2 = 5" "messageHandlers s2 = messageHandlers s"
    unfolding s2_def using p1 assms(4) ne(2) by (simp_all add: lossAndRetry_step)
  have p3: "timers s3 = timers s @ [5000, 7500, 11250]" "reconnectAttempts s3 = 3"
    "reconnectInterval s3 = 16875" "maxReconnectAttempts s3 = 5" "messageHandlers s3 = messageHandlers s"
    unfolding s3_def using p2 assms(4) ne(3) by (simp_all add: lossAndRetry_step)
  have p4: "timers s4 = timers s @ [5000, 7500, 11250, 16875]" "reconnectAttempts s4 = 4"
    "reconnectInterval s4 = 50625 / 2" "maxReconnectAttempts s4 = 5" "messageHandlers s4 = messageHandlers s"
    unfolding s4_def using p3 assms(4) ne(4) by (simp_all add: lossAndRetry_step)
  have p5: "timers s5 = timers s @ [5000, 7500, 11250, 16875, 50625 / 2]" "reconnectAttempts s5 = 5"
    "maxReconnectAttempts s5 = 5" "messageHandlers s5 = messageHandlers s"
    unfolding s5_def using p4 assms(4) ne(5) by (simp_all add: lossAndRetry_step)
  have ex: "\<not> reconnectAttempts s5 < maxReconnectAttempts s5" by (simp add: p5)
  have l: "listeners s5 t = listeners s t" for t by (simp add: listeners_def p5)
  show ?thesis
    unfolding f using onClose_exhausted(1,2)[OF assms(7) ex, of e reason] p5(1) by (simp add: l)
qed

text \<open>
  The statement of C7 at a connected client in the default configuration.
\<close>

theorem default_backoff_schedule_witness:
  "reconnectAttempts demoConnected = 0 \<and> reconnectInterval demoConnected = 5000
   \<and> maxReconnectAttempts demoConnected = 5 \<and> \<not> newWebSocketThrows demoEnv
   \<and> length [1006, 1006, 1001, 1011, 1006 :: nat] = 5
   \<and> list_all (\<lambda>c. c \<noteq> 1000) [1006, 1006, 1001, 1011, 1006 :: nat]
   \<and> (1006 :: nat) \<noteq> 1000
   \<and> timers (fold (lossAndRetry demoEnv) [1006, 1006, 1001, 1011, 1006] demoConnected) =
       [5000, 7500, 11250, 16875, 50625 / 2]
   \<and> timers (onClose demoEnv 1006 [] (fold (lossAndRetry demoEnv) [1006, 1006, 1001, 1011, 1006] demoConnected)) =
       [5000, 7500, 11250, 16875, 50625 / 2]
   \<and> calls (onClose demoEnv 1006 [] (fold (lossAndRetry demoEnv) [1006, 1006, 1001, 1011, 1006] demoConnected)) =
       calls (fold (lossAndRetry demoEnv) [1006, 1006, 1001, 1011, 1006] demoConnected)
         @ [(4, ''max_reconnect_attempts_reached'', NoData)]"
proof -
  have h4: "\<not> newWebSocketThrows demoEnv" by (simp add: demoEnv_def)
  have h5: "length [1006, 1006, 1001, 1011, 1006 :: nat] = 5" by simp
  have h6: "list_all (\<lambda>c. c \<noteq> 1000) [1006, 1006, 1001, 1011, 1006 :: nat]" by simp
  have h7: "(1006 :: nat) \<noteq> 1000" by simp
  note t = default_backoff_schedule[OF demoConnected_fields(9) demoConnected_fields(10)
      demoConnected_fields(11) h4 h5 h6 h7, of "[]"]
  have a: "timers (fold (lossAndRetry demoEnv) [1006, 1006, 1001, 1011, 1006] demoConnected) =
       [5000, 7500, 11250, 16875, 50625 / 2]"
    using conjunct1[OF t] by (simp add: demoConnected_fields)
  have b: "timers (onClose demoEnv 1006 [] (fold (lossAndRetry demoEnv) [1006, 1006, 1001, 1011, 1006] demoConnected)) =
       [5000, 7500, 11250, 16875, 50625 / 2]"
    using conjunct1[OF conjunct2[OF t]] a by simp
  have c: "calls (onClose demoEnv 1006 [] (fold (lossAndRetry demoEnv) [1006, 1006, 1001, 1011, 1006] demoConnected)) =
       calls (fold (lossAndRetry demoEnv) [1006, 1006, 1001, 1011, 1006] demoConnected)
         @ [(4, ''max_reconnect_attempts_reached'', NoData)]"
    using conjunct2[OF conjunct2[OF t]]
    by (simp add: demoConnected_listeners demoRegistered_listeners quietListener_def)
  show ?thesis
    using a b c h4 by (simp add: demoConnected_fields)
qed

end
